theory Spec2Isabelle
  imports Main
begin

section \<open>The QuickJS worker of bunbase: functions/cmd/quickjs-worker/main.c\<close>

text \<open>
  The worker is a C program around the QuickJS-NG engine. The embedding follows main.c
  function by function. C strings are \<open>string\<close> (lists of bytes), a pointer that may be
  NULL is a \<open>string option\<close>. The engine is not part of the repository: what main.c asks
  of it is either a field of the record \<open>engine\<close> (parsing, evaluation of guest code,
  calls, awaiting) or, where the JavaScript standard fixes the answer on plain data, a
  function on the datatype \<open>jsval\<close>. Of the reference counting, the model follows the
  C string of an invoke record's id, which main.c releases twice (see process_line);
  JS_FreeValue and free are not modelled.
\<close>

subsection \<open>C library: snprintf and the %d conversion\<close>

definition snprintf :: "nat \<Rightarrow> string \<Rightarrow> string" where
  "snprintf n s = take (n - 1) s"

fun dec_nat :: "nat \<Rightarrow> string" where
  "dec_nat n = (if n < 10 then [char_of (48 + n)]
                else dec_nat (n div 10) @ [char_of (48 + n mod 10)])"

declare dec_nat.simps [simp del]

definition printf_d :: "int \<Rightarrow> string" where
  "printf_d i = (if i < 0 then CHR ''-'' # dec_nat (nat (- i)) else dec_nat (nat i))"

subsection \<open>NDJSON records on stdout (main.c lines 61-150)\<close>

text \<open>
  One call of send_message writes one chunk of bytes to stdout. The model keeps the
  type and id arguments of the call next to the bytes written.
\<close>

record emitted =
  e_type :: string
  e_id :: string
  e_line :: string

definition send_message :: "string \<Rightarrow> string \<Rightarrow> string \<Rightarrow> emitted" where
  \<open>send_message ty rid payload =
     \<lparr>e_type = ty, e_id = rid,
      e_line = ''{"id":"'' @ rid @ ''","type":"'' @ ty @ ''","payload":'' @ payload @ ''}'' @ [CHR 0x0A]\<rparr>\<close>

definition send_ready :: "string \<Rightarrow> emitted" where
  "send_ready worker_id = send_message ''ready'' worker_id ''{}''"

definition send_error :: "string \<Rightarrow> string option \<Rightarrow> string option \<Rightarrow> emitted" where
  \<open>send_error rid message code =
     send_message ''error'' rid
       (snprintf 1024
          (''{"message":"'' @ (case message of None \<Rightarrow> ''Unknown error'' | Some m \<Rightarrow> m)
           @ ''","code":"'' @ (case code of None \<Rightarrow> ''UNKNOWN_ERROR'' | Some c \<Rightarrow> c)
           @ ''"}''))\<close>

text \<open>
  The escaping loop of send_response: \<open>j\<close> is the write index into escaped_body[16384],
  the list is what is left of body_base64.
\<close>

fun escape_body :: "nat \<Rightarrow> string \<Rightarrow> string" where
  "escape_body j [] = []"
| "escape_body j (c # cs) =
     (if j < 16383 then
        (if c = CHR 0x22 then [CHR 0x5C, CHR 0x22] @ escape_body (j + 2) cs
         else if c = CHR 0x5C then [CHR 0x5C, CHR 0x5C] @ escape_body (j + 2) cs
         else if c = CHR 0x0A then [CHR 0x5C, CHR ''n''] @ escape_body (j + 2) cs
         else if c = CHR 0x0D then [CHR 0x5C, CHR ''r''] @ escape_body (j + 2) cs
         else c # escape_body (j + 1) cs)
      else [])"

definition send_response :: "string \<Rightarrow> int \<Rightarrow> string option \<Rightarrow> string \<Rightarrow> emitted" where
  \<open>send_response rid status headers_json body_base64 =
     send_message ''response'' rid
       (snprintf 32768
          (''{"status":'' @ printf_d status
           @ '',"headers":'' @ (case headers_json of None \<Rightarrow> ''{}'' | Some h \<Rightarrow> h)
           @ '',"body":"'' @ escape_body 0 body_base64 @ ''"}''))\<close>

text \<open>
  escape_json_str: \<open>j\<close> is the write index into out_buf, of out_size bytes. The only
  caller passes out_size = 768; with out_size = 0 the C function writes nothing.
\<close>

fun escape_json_loop :: "nat \<Rightarrow> nat \<Rightarrow> string \<Rightarrow> string" where
  "escape_json_loop out_size j [] = []"
| "escape_json_loop out_size j (c # cs) =
     (if j < out_size - 1 then
        (if c = CHR 0x22 \<or> c = CHR 0x5C then
           (if j + 2 \<ge> out_size then [] else [CHR 0x5C, c] @ escape_json_loop out_size (j + 2) cs)
         else if c = CHR 0x0A then
           (if j + 2 \<ge> out_size then [] else [CHR 0x5C, CHR ''n''] @ escape_json_loop out_size (j + 2) cs)
         else if c = CHR 0x0D then
           (if j + 2 \<ge> out_size then [] else [CHR 0x5C, CHR ''r''] @ escape_json_loop out_size (j + 2) cs)
         else c # escape_json_loop out_size (j + 1) cs)
      else [])"

definition escape_json_str :: "string \<Rightarrow> nat \<Rightarrow> string" where
  "escape_json_str inp out_size = (if out_size = 0 then [] else escape_json_loop out_size 0 inp)"

definition send_log :: "string \<Rightarrow> string option \<Rightarrow> string option \<Rightarrow> emitted" where
  \<open>send_log rid level message =
     send_message ''log'' rid
       (snprintf 1024
          (''{"level":"'' @ (case level of None \<Rightarrow> ''info'' | Some l \<Rightarrow> l)
           @ ''","message":"''
           @ escape_json_str (case message of None \<Rightarrow> [] | Some m \<Rightarrow> m) 768
           @ ''"}''))\<close>

subsection \<open>Engine values\<close>

text \<open>
  JSValue as main.c sees it: the tags it tests and plain data. A string is the list of
  its code points, an object the list of its own properties, a function is named by its
  source text. Numbers are the integer-valued ones; accessors and proxies are outside
  the model, so reading a property runs no guest code.
\<close>

datatype jsval = JS_UNDEFINED | JS_NULL | JS_EXCEPTION | JS_Bool bool | JS_Int int
  | JS_String "nat list" | JS_Object "(string \<times> jsval) list" | JS_Function string

definition JS_IsUndefined :: "jsval \<Rightarrow> bool" where
  "JS_IsUndefined v = (v = JS_UNDEFINED)"

definition JS_IsNull :: "jsval \<Rightarrow> bool" where
  "JS_IsNull v = (v = JS_NULL)"

definition JS_IsException :: "jsval \<Rightarrow> bool" where
  "JS_IsException v = (v = JS_EXCEPTION)"

fun JS_IsString :: "jsval \<Rightarrow> bool" where
  "JS_IsString (JS_String s) = True"
| "JS_IsString _ = False"

fun JS_IsFunction :: "jsval \<Rightarrow> bool" where
  "JS_IsFunction (JS_Function f) = True"
| "JS_IsFunction _ = False"

text \<open>
  JS_GetPropertyStr for the names main.c reads (none of them is inherited from a
  prototype): a missing property is undefined, reading from undefined or null throws.
\<close>

fun JS_GetPropertyStr :: "jsval \<Rightarrow> string \<Rightarrow> jsval" where
  "JS_GetPropertyStr (JS_Object props) name =
     (case map_of props name of Some v \<Rightarrow> v | None \<Rightarrow> JS_UNDEFINED)"
| "JS_GetPropertyStr JS_UNDEFINED name = JS_EXCEPTION"
| "JS_GetPropertyStr JS_NULL name = JS_EXCEPTION"
| "JS_GetPropertyStr JS_EXCEPTION name = JS_EXCEPTION"
| "JS_GetPropertyStr v name = JS_UNDEFINED"

text \<open>
  The UTF-8 encoding of a code point, and a byte array read as a C string, up to the
  first NUL.
\<close>

definition utf8 :: "nat \<Rightarrow> string" where
  "utf8 c =
     (if c < 0x80 then [char_of c]
      else if c < 0x800 then [char_of (0xC0 + c div 64), char_of (0x80 + c mod 64)]
      else if c < 0x10000 then
        [char_of (0xE0 + c div 4096), char_of (0x80 + c div 64 mod 64), char_of (0x80 + c mod 64)]
      else
        [char_of (0xF0 + c div 262144), char_of (0x80 + c div 4096 mod 64),
         char_of (0x80 + c div 64 mod 64), char_of (0x80 + c mod 64)])"

definition c_str :: "string \<Rightarrow> string" where
  "c_str bytes = takeWhile (\<lambda>c. c \<noteq> CHR 0x00) bytes"

subsection \<open>The engine\<close>

text \<open>
  Guest code is a parameter. Running it (a script, a module, a call, an await) yields
  the calls it made to the host function __bunbase_log, in order, and how it ended: with
  a value, with an exception (kept as the C string JS_ToCString gives for it, NULL when
  that conversion fails), or never. The guest state is the global object's properties
  (name and value, each name once) and an opaque rest.
\<close>

record 'h guest =
  globals :: "(string \<times> jsval) list"
  heap :: 'h

datatype completion = Returned jsval | Thrown "string option" | Diverged

record guest_run =
  log_calls :: "jsval list list"
  outcome :: completion

record 'h engine =
  JS_NewRuntime :: bool
  JS_NewContext :: "'h guest option"
  js_std_add_helpers :: "'h guest \<Rightarrow> 'h guest"
  JS_ParseJSON :: "string \<Rightarrow> string option + jsval"
  JS_JSONStringify :: "jsval \<Rightarrow> jsval"
  JS_ToInt32 :: "jsval \<Rightarrow> int"
  JS_ToString :: "jsval \<Rightarrow> jsval"
  JS_Eval :: "'h guest \<Rightarrow> string \<Rightarrow> guest_run \<times> 'h guest"
  JS_Call :: "'h guest \<Rightarrow> jsval \<Rightarrow> jsval list \<Rightarrow> guest_run \<times> 'h guest"
  js_std_await :: "'h guest \<Rightarrow> jsval \<Rightarrow> guest_run \<times> 'h guest"
  JS_Eval_compile :: "string \<Rightarrow> string \<Rightarrow> string option + jsval"
  JS_ResolveModule :: "jsval \<Rightarrow> string option option"
  js_module_set_import_meta :: "jsval \<Rightarrow> string option option"
  JS_VALUE_GET_PTR_null :: "jsval \<Rightarrow> bool"
  JS_EvalFunction :: "'h guest \<Rightarrow> jsval \<Rightarrow> guest_run \<times> 'h guest"
  JS_GetModuleNamespace :: "'h guest \<Rightarrow> jsval \<Rightarrow> string option + jsval"

text \<open>
  JS_ToCString is ToString followed by UTF-8, and NULL when ToString throws. The
  standard fixes ToString on undefined, null, the booleans, the strings and the integers
  below 2^53 in absolute value, which are printed in decimal. Beyond that it is the
  engine's JS_ToString: a larger number is rounded and, from 10^21 on, printed with an
  exponent; an object is converted through its toString and valueOf properties, its own
  or inherited, and the conversion throws when neither yields a primitive value, as for
  the object \<open>{"toString":1}\<close>. JS_ToString gives a string or JS_EXCEPTION.
\<close>

definition to_c_string :: "jsval \<Rightarrow> string option" where
  "to_c_string str =
     (case str of JS_String cs \<Rightarrow> Some (c_str (concat (map utf8 cs))) | _ \<Rightarrow> None)"

fun JS_ToCString :: "'h engine \<Rightarrow> jsval \<Rightarrow> string option" where
  "JS_ToCString eng JS_UNDEFINED = Some ''undefined''"
| "JS_ToCString eng JS_NULL = Some ''null''"
| "JS_ToCString eng JS_EXCEPTION = None"
| "JS_ToCString eng (JS_Bool b) = Some (if b then ''true'' else ''false'')"
| "JS_ToCString eng (JS_Int i) =
     (if \<bar>i\<bar> < 2 ^ 53 then Some (printf_d i) else to_c_string (JS_ToString eng (JS_Int i)))"
| "JS_ToCString eng (JS_String cs) = Some (c_str (concat (map utf8 cs)))"
| "JS_ToCString eng (JS_Object props) = to_c_string (JS_ToString eng (JS_Object props))"
| "JS_ToCString eng (JS_Function src) = to_c_string (JS_ToString eng (JS_Function src))"

text \<open>
  A C string JS_ToCString returned is held until JS_FreeCString releases it. Releasing a
  string that is no longer held is outside what the engine defines: \<open>None\<close>.
\<close>

datatype cstring_ref = Held | Released

definition JS_FreeCString :: "cstring_ref \<Rightarrow> cstring_ref option" where
  "JS_FreeCString r = (case r of Held \<Rightarrow> Some Released | Released \<Rightarrow> None)"

text \<open>
  How a part of the program ends: it returns, or guest code never returns and the
  worker hangs in it, or it leaves what C and the engine define.
\<close>

datatype 'a ending = Returns 'a | Never_returns | Undefined_behaviour

subsection \<open>Global state of the worker (main.c lines 27-46)\<close>

record 'h worker =
  handler_func :: jsval
  current_invoke_id :: string
  ctx :: "'h guest"
  stdout :: "emitted list"
  stderr :: "string list"

definition emit :: "emitted \<Rightarrow> 'h worker \<Rightarrow> 'h worker" where
  "emit e s = s\<lparr>stdout := stdout s @ [e]\<rparr>"

definition fprintf_stderr :: "string \<Rightarrow> 'h worker \<Rightarrow> 'h worker" where
  "fprintf_stderr msg s = s\<lparr>stderr := stderr s @ [msg]\<rparr>"

definition pct_s :: "string option \<Rightarrow> string" where
  "pct_s p = (case p of None \<Rightarrow> ''(null)'' | Some str \<Rightarrow> str)"

subsection \<open>Console bridge (main.c lines 406-425)\<close>

definition js_bunbase_log :: "'h engine \<Rightarrow> string \<Rightarrow> jsval list \<Rightarrow> emitted" where
  "js_bunbase_log eng cur argv =
     (case argv of
        a0 # a1 # rest \<Rightarrow>
          send_log (if cur \<noteq> [] then cur else ''bundle'')
            (Some (case JS_ToCString eng a0 of None \<Rightarrow> ''info'' | Some l \<Rightarrow> l))
            (Some (case JS_ToCString eng a1 of None \<Rightarrow> [] | Some m \<Rightarrow> m))
      | [a0] \<Rightarrow>
          send_log (if cur \<noteq> [] then cur else ''bundle'')
            (Some ''info'')
            (Some (case JS_ToCString eng a0 of None \<Rightarrow> [] | Some m \<Rightarrow> m))
      | [] \<Rightarrow>
          send_log (if cur \<noteq> [] then cur else ''bundle'') (Some ''info'') (Some []))"

text \<open>
  The log calls of one guest run reach stdout while the run lasts, each tagged with
  the value current_invoke_id has during the run (only the host writes that variable).
\<close>

definition guest_logs :: "'h engine \<Rightarrow> guest_run \<Rightarrow> 'h worker \<Rightarrow> 'h worker" where
  "guest_logs eng r s =
     s\<lparr>stdout := stdout s @ map (js_bunbase_log eng (current_invoke_id s)) (log_calls r)\<rparr>"

subsection \<open>Invocation dispatcher: execute_handler (main.c lines 665-841)\<close>

text \<open>
  The format string of the request-building script, with the six %s conversions filled
  in; the caller cuts the result to the 8192 bytes of request_code.
\<close>

definition request_code_fmt ::
  "string \<Rightarrow> string \<Rightarrow> string \<Rightarrow> string \<Rightarrow> string \<Rightarrow> string \<Rightarrow> string" where
  \<open>request_code_fmt full_url query_json headers_json body1 body2 method =
     ''(function() {''
     @ ''  const urlStr = '' @ [CHR 0x27] @ full_url @ [CHR 0x27] @ '';''
     @ ''  const url = new URL(urlStr, 'http://localhost');''
     @ ''  const query = '' @ query_json @ '';''
     @ ''  for (const [k, v] of Object.entries(query)) { url.searchParams.set(k, v); }''
     @ ''  const headers = '' @ headers_json @ '';''
     @ ''  const body = '' @ [CHR 0x27] @ body1 @ [CHR 0x27] @ '' ? atob('' @ [CHR 0x27] @ body2 @ [CHR 0x27] @ '') : null;''
     @ ''  const req = new Request(url.toString(), { method: '' @ [CHR 0x27] @ method @ [CHR 0x27] @ '', headers: headers, body: body });''
     @ ''  return req;''
     @ ''})()''\<close>

text \<open>
  Lines 678-700: full_url[1024] takes the path, request_code[8192] the script.
\<close>

definition request_code :: "string \<Rightarrow> string \<Rightarrow> string \<Rightarrow> string \<Rightarrow> string \<Rightarrow> string" where
  "request_code path query_json headers_json body_base64 method =
     (let full_url = snprintf 1024 path
      in snprintf 8192
           (request_code_fmt full_url query_json headers_json body_base64 body_base64 method))"

definition base64_chars :: string where
  "base64_chars = ''ABCDEFGHIJKLMNOPQRSTUVWXYZabcdefghijklmnopqrstuvwxyz0123456789+/''"

text \<open>
  The encoding loop (lines 800-817): \<open>j\<close> is the write index into encoded_body[16384],
  the list is body_str from index i on. The 24-bit block \<open>b\<close> is built from disjoint
  bit fields, so the shifts and ors of the C code are the sums and quotients below.
\<close>

fun base64_loop :: "nat \<Rightarrow> string \<Rightarrow> string" where
  "base64_loop j (x # y # z # rest) =
     (if j < 16384 - 4 then
        [base64_chars ! ((of_char x * 65536 + of_char y * 256 + of_char z) div 262144 mod 64),
         base64_chars ! ((of_char x * 65536 + of_char y * 256 + of_char z) div 4096 mod 64),
         base64_chars ! ((of_char x * 65536 + of_char y * 256 + of_char z) div 64 mod 64),
         base64_chars ! ((of_char x * 65536 + of_char y * 256 + of_char z) mod 64)]
        @ base64_loop (j + 4) rest
      else [])"
| "base64_loop j [x, y] =
     (if j < 16384 - 4 then
        [base64_chars ! ((of_char x * 65536 + of_char y * 256) div 262144 mod 64),
         base64_chars ! ((of_char x * 65536 + of_char y * 256) div 4096 mod 64),
         base64_chars ! ((of_char x * 65536 + of_char y * 256) div 64 mod 64),
         CHR ''='']
      else [])"
| "base64_loop j [x] =
     (if j < 16384 - 4 then
        [base64_chars ! ((of_char x * 65536) div 262144 mod 64),
         base64_chars ! ((of_char x * 65536) div 4096 mod 64),
         CHR ''='', CHR ''='']
      else [])"
| "base64_loop j [] = []"

definition response_status :: "'h engine \<Rightarrow> jsval \<Rightarrow> int" where
  "response_status eng status_val =
     (if \<not> JS_IsUndefined status_val then JS_ToInt32 eng status_val else 200)"

definition response_headers :: "'h engine \<Rightarrow> jsval \<Rightarrow> string option" where
  "response_headers eng headers_val =
     (if \<not> JS_IsUndefined headers_val then
        (let m1 = JS_GetPropertyStr headers_val ''_headers'';
             headers_map =
               (if JS_IsUndefined m1 then
                  (let m2 = JS_GetPropertyStr headers_val ''headers''
                   in if JS_IsUndefined m2 then headers_val else m2)
                else m1);
             headers_json_val = JS_JSONStringify eng headers_map
         in if \<not> JS_IsException headers_json_val \<and> JS_IsString headers_json_val
            then JS_ToCString eng headers_json_val
            else Some ''{}'')
      else Some ''{}'')"

definition response_body :: "'h engine \<Rightarrow> jsval \<Rightarrow> string" where
  "response_body eng body_val =
     (if \<not> JS_IsUndefined body_val \<and> \<not> JS_IsNull body_val then
        (if JS_IsString body_val then
           (case JS_ToCString eng body_val of
              Some body_str \<Rightarrow> base64_loop 0 body_str
            | None \<Rightarrow> [])
         else [])
      else [])"

text \<open>
  execute_handler returns its int, or nothing when guest code never returns
  (\<open>None\<close>: the worker hangs there). Its callers pass non-NULL strings.
\<close>

definition execute_handler ::
  "'h engine \<Rightarrow> 'h worker \<Rightarrow> string \<Rightarrow> string \<Rightarrow> string \<Rightarrow> string \<Rightarrow> string \<Rightarrow> string
     \<Rightarrow> int option \<times> 'h worker" where
  "execute_handler eng s invoke_id method path headers_json query_json body_base64 =
     (if JS_IsUndefined (handler_func s) then
        (Some (- 1),
         emit (send_error invoke_id (Some ''Handler not loaded'') (Some ''HANDLER_NOT_LOADED'')) s)
      else
        (let s1 = s\<lparr>current_invoke_id := take 63 invoke_id\<rparr>;
             r1 = JS_Eval eng (ctx s1) (request_code path query_json headers_json body_base64 method);
             s2 = guest_logs eng (fst r1) (s1\<lparr>ctx := snd r1\<rparr>)
         in case outcome (fst r1) of
              Diverged \<Rightarrow> (None, s2)
            | Thrown error \<Rightarrow>
                (Some (- 1),
                 (emit (send_error invoke_id error (Some ''REQUEST_CREATION_ERROR'')) s2)
                   \<lparr>current_invoke_id := []\<rparr>)
            | Returned request_val \<Rightarrow>
                (let r2 = JS_Call eng (ctx s2) (handler_func s2) [request_val];
                     s3 = guest_logs eng (fst r2) (s2\<lparr>ctx := snd r2\<rparr>)
                 in case outcome (fst r2) of
                      Diverged \<Rightarrow> (None, s3)
                    | Thrown error \<Rightarrow>
                        (Some (- 1),
                         (emit (send_error invoke_id error (Some ''HANDLER_ERROR'')) s3)
                           \<lparr>current_invoke_id := []\<rparr>)
                    | Returned promise \<Rightarrow>
                        (let r3 = js_std_await eng (ctx s3) promise;
                             s4 = guest_logs eng (fst r3) (s3\<lparr>ctx := snd r3\<rparr>)
                         in case outcome (fst r3) of
                              Diverged \<Rightarrow> (None, s4)
                            | Thrown error \<Rightarrow>
                                (Some (- 1),
                                 (emit (send_error invoke_id error (Some ''HANDLER_ERROR'')) s4)
                                   \<lparr>current_invoke_id := []\<rparr>)
                            | Returned result \<Rightarrow>
                                (Some 0,
                                 (emit
                                    (send_response invoke_id
                                       (response_status eng (JS_GetPropertyStr result ''status''))
                                       (response_headers eng (JS_GetPropertyStr result ''headers''))
                                       (response_body eng (JS_GetPropertyStr result ''body'')))
                                    s4)
                                   \<lparr>current_invoke_id := []\<rparr>)))))"

subsection \<open>The stdin loop: process_messages (main.c lines 843-949)\<close>

definition or_default :: "string option \<Rightarrow> string \<Rightarrow> string" where
  "or_default p d = (case p of None \<Rightarrow> d | Some str \<Rightarrow> str)"

text \<open>Lines 854-858: the newline getline left at the end of the line is cut off.\<close>

definition chomp :: "string \<Rightarrow> string" where
  "chomp raw = (if last raw = CHR 0x0A then butlast raw else raw)"

text \<open>
  Lines 886-910: the five strings execute_handler gets from the payload, in the order
  method, path, headers_json, query_json, body_base64, each with its default for NULL.
\<close>

definition payload_strings :: "'h engine \<Rightarrow> jsval \<Rightarrow> string \<times> string \<times> string \<times> string \<times> string" where
  "payload_strings eng payload_val =
     (let method_val = JS_GetPropertyStr payload_val ''method'';
          path_val = JS_GetPropertyStr payload_val ''path'';
          headers_val = JS_GetPropertyStr payload_val ''headers'';
          query_val = JS_GetPropertyStr payload_val ''query'';
          body_val = JS_GetPropertyStr payload_val ''body'';
          method = JS_ToCString eng method_val;
          path = JS_ToCString eng path_val;
          headers_json_val = JS_JSONStringify eng headers_val;
          query_json_val = JS_JSONStringify eng query_val;
          headers_json = JS_ToCString eng headers_json_val;
          query_json = JS_ToCString eng query_json_val;
          body_str = JS_ToCString eng body_val
      in (or_default method ''GET'', or_default path ''/'', or_default headers_json ''{}'',
          or_default query_json ''{}'', or_default body_str []))"

text \<open>
  \<open>if (p) JS_FreeCString(ctx, p)\<close>, on the reference main.c holds on the string \<open>p\<close>.
\<close>

definition free_if_set :: "string option \<Rightarrow> cstring_ref \<Rightarrow> cstring_ref option" where
  "free_if_set p r = (case p of None \<Rightarrow> Some r | Some str \<Rightarrow> JS_FreeCString r)"

text \<open>
  One iteration of the while loop, on what getline returned (the line with its newline,
  if it has one). The C strings of the iteration are released once each, except
  invoke_id: when the record has a payload, line 913 releases it after execute_handler
  has returned and line 932 releases it again.
\<close>

definition process_line :: "'h engine \<Rightarrow> 'h worker \<Rightarrow> string \<Rightarrow> unit ending \<times> 'h worker" where
  "process_line eng s raw =
     (if raw = [] \<or> hd raw = CHR 0x0A then (Returns (), s)
      else
        (case JS_ParseJSON eng (chomp raw) of
           Inl error \<Rightarrow>
             (Returns (),
              fprintf_stderr (''[ERROR] Failed to parse message: '' @ pct_s error @ [CHR 0x0A]) s)
         | Inr msg_val \<Rightarrow>
             (let type_val = JS_GetPropertyStr msg_val ''type'';
                  type_str = JS_ToCString eng type_val
              in if type_str = Some ''invoke'' then
                   (let id_val = JS_GetPropertyStr msg_val ''id'';
                        invoke_id = JS_ToCString eng id_val;
                        payload_val = JS_GetPropertyStr msg_val ''payload''
                    in if \<not> JS_IsUndefined payload_val then
                         (case payload_strings eng payload_val of
                            (method, path, headers_json, query_json, body_str) \<Rightarrow>
                              (case execute_handler eng s (or_default invoke_id ''unknown'')
                                      method path headers_json query_json body_str of
                                 (None, s1) \<Rightarrow> (Never_returns, s1)
                               | (Some rc, s1) \<Rightarrow>
                                   (case Option.bind (free_if_set invoke_id Held)
                                           (free_if_set invoke_id) of
                                      None \<Rightarrow> (Undefined_behaviour, s1)
                                    | Some r \<Rightarrow> (Returns (), s1))))
                       else
                         (let s1 = emit (send_error (or_default invoke_id ''unknown'')
                                           (Some ''Missing payload in invoke message'')
                                           (Some ''INVALID_MESSAGE'')) s
                          in case free_if_set invoke_id Held of
                               None \<Rightarrow> (Undefined_behaviour, s1)
                             | Some r \<Rightarrow> (Returns (), s1)))
                 else (Returns (), s))))"

text \<open>
  The loop over the successive results of getline, up to end of file: it goes on with
  the next line when the iteration returned.
\<close>

fun process_messages :: "'h engine \<Rightarrow> 'h worker \<Rightarrow> string list \<Rightarrow> unit ending \<times> 'h worker" where
  "process_messages eng s [] = (Returns (), s)"
| "process_messages eng s (raw # rest) =
     (case process_line eng s raw of
        (Returns u, s') \<Rightarrow> process_messages eng s' rest
      | (Never_returns, s') \<Rightarrow> (Never_returns, s')
      | (Undefined_behaviour, s') \<Rightarrow> (Undefined_behaviour, s'))"

subsection \<open>Guest scripts installed at startup (main.c lines 180-464)\<close>

text \<open>
  The scripts main.c hands to JS_Eval before the bundle is loaded, as the C string
  literals spell them.
\<close>

definition base64_polyfill :: string where
  \<open>base64_polyfill =
     ''(function() {''
     @ ''  const chars = 'ABCDEFGHIJKLMNOPQRSTUVWXYZabcdefghijklmnopqrstuvwxyz0123456789+/=';''
     @ ''  globalThis.btoa = function(input) {''
     @ ''    let str = String(input);''
     @ ''    let output = '' @ [CHR 0x27] @ [CHR 0x27] @ '';''
     @ ''    for (let block = 0, charCode, i = 0, map = chars; ''
     @ ''    str.charAt(i | 0) || (map = '=', i % 1); ''
     @ ''    output += map.charAt(63 & block >> 8 - i % 1 * 8)) {''
     @ ''      charCode = str.charCodeAt(i += 3/4);''
     @ ''      if (charCode > 0xFF) {''
     @ ''        throw new Error("'btoa' failed: The string to be encoded contains characters outside of the Latin1 range.");''
     @ ''      }''
     @ ''      block = block << 8 | charCode;''
     @ ''    }''
     @ ''    return output;''
     @ ''  };''
     @ ''  globalThis.atob = function(input) {''
     @ ''    let str = String(input).replace(/=+$/, '' @ [CHR 0x27] @ [CHR 0x27] @ '');''
     @ ''    let output = '' @ [CHR 0x27] @ [CHR 0x27] @ '';''
     @ ''    if (str.length % 4 == 1) {''
     @ ''      throw new Error("'atob' failed: The string to be decoded is not correctly encoded.");''
     @ ''    }''
     @ ''    for (let bc = 0, bs = 0, buffer, i = 0; ''
     @ ''      buffer = str.charAt(i++); ''
     @ ''      ~buffer && (bs = bc % 4 ? bs * 64 + buffer : buffer, ''
     @ ''        bc++ % 4) ? output += String.fromCharCode(255 & bs >> (-2 * bc & 6)) : 0''
     @ ''    ) {''
     @ ''      buffer = chars.indexOf(buffer);''
     @ ''    }''
     @ ''    return output;''
     @ ''  };''
     @ ''})();''\<close>

definition url_polyfill :: string where
  \<open>url_polyfill =
     ''(function() {''
     @ ''  class URLSearchParams {''
     @ ''    constructor(init) {''
     @ ''      this.params = {};''
     @ ''      if (typeof init === 'string') {''
     @ ''        if (init) {''
     @ ''          init.split('&').forEach(pair => {''
     @ ''            const eq = pair.indexOf('=');''
     @ ''            if (eq >= 0) {''
     @ ''              const key = decodeURIComponent(pair.substring(0, eq));''
     @ ''              const value = decodeURIComponent(pair.substring(eq + 1));''
     @ ''              this.params[key] = value;''
     @ ''            } else if (pair) {''
     @ ''              this.params[decodeURIComponent(pair)] = '' @ [CHR 0x27] @ [CHR 0x27] @ '';''
     @ ''            }''
     @ ''          });''
     @ ''        }''
     @ ''      } else if (init) {''
     @ ''        Object.entries(init).forEach(([k, v]) => this.params[k] = v);''
     @ ''      }''
     @ ''    }''
     @ ''    get(name) { return this.params[name] || null; }''
     @ ''    set(name, value) { this.params[name] = value; }''
     @ ''    has(name) { return name in this.params; }''
     @ ''    delete(name) { delete this.params[name]; }''
     @ ''    forEach(callback) { Object.entries(this.params).forEach(([k, v]) => callback(v, k)); }''
     @ ''    entries() { return Object.entries(this.params); }''
     @ ''    keys() { return Object.keys(this.params); }''
     @ ''    values() { return Object.values(this.params); }''
     @ ''  }''
     @ ''  class URL {''
     @ ''    constructor(url, base) {''
     @ ''      let fullUrl = url;''
     @ ''      if (base) {''
     @ ''        if (typeof base === 'string') {''
     @ ''          const baseUrl = new URL(base);''
     @ ''          if (url.startsWith('/')) {''
     @ ''            fullUrl = baseUrl.origin + url;''
     @ ''          } else {''
     @ ''            fullUrl = baseUrl.href.replace(/'' @ [CHR 0x5C] @ ''/[^/]*$/, '/') + url;''
     @ ''          }''
     @ ''        } else {''
     @ ''          fullUrl = base.href + url;''
     @ ''        }''
     @ ''      }''
     @ ''      this.href = fullUrl;''
     @ ''      const match = fullUrl.match(/^(https?:'' @ [CHR 0x5C] @ ''/'' @ [CHR 0x5C] @ ''/[^'' @ [CHR 0x5C] @ ''/]+)?([^?#]*)('' @ [CHR 0x5C] @ ''?[^#]*)?(#.*)?$/);''
     @ ''      this.origin = match && match[1] ? match[1] : '' @ [CHR 0x27] @ [CHR 0x27] @ '';''
     @ ''      this.pathname = match && match[2] ? match[2] : '/';''
     @ ''      const search = match && match[3] ? match[3] : '' @ [CHR 0x27] @ [CHR 0x27] @ '';''
     @ ''      this.search = search;''
     @ ''      this.hash = match && match[4] ? match[4] : '' @ [CHR 0x27] @ [CHR 0x27] @ '';''
     @ ''      this.searchParams = new URLSearchParams(search.substring(1));''
     @ ''    }''
     @ ''    toString() { ''
     @ ''      const pairs = []; ''
     @ ''      Object.entries(this.searchParams.params).forEach(([k, v]) => { ''
     @ ''        pairs.push(encodeURIComponent(k) + (v ? '=' + encodeURIComponent(v) : '' @ [CHR 0x27] @ [CHR 0x27] @ '')); ''
     @ ''      }); ''
     @ ''      this.search = pairs.length > 0 ? '?' + pairs.join('&') : '' @ [CHR 0x27] @ [CHR 0x27] @ ''; ''
     @ ''      this.href = this.origin + this.pathname + this.search + this.hash; ''
     @ ''      return this.href; ''
     @ ''    }''
     @ ''  }''
     @ ''  globalThis.URL = URL;''
     @ ''  globalThis.URLSearchParams = URLSearchParams;''
     @ ''})();''\<close>

definition response_polyfill :: string where
  \<open>response_polyfill =
     ''(function() {''
     @ ''  class Headers {''
     @ ''    constructor(init) {''
     @ ''      this._headers = {};''
     @ ''      if (init) {''
     @ ''        if (typeof init === 'object' && !Array.isArray(init)) {''
     @ ''          Object.entries(init).forEach(([k, v]) => this._headers[k.toLowerCase()] = String(v));''
     @ ''        }''
     @ ''      }''
     @ ''    }''
     @ ''    get(name) { return this._headers[name.toLowerCase()] || null; }''
     @ ''    set(name, value) { this._headers[name.toLowerCase()] = String(value); }''
     @ ''    has(name) { return name.toLowerCase() in this._headers; }''
     @ ''    delete(name) { delete this._headers[name.toLowerCase()]; }''
     @ ''    forEach(callback) { Object.entries(this._headers).forEach(([k, v]) => callback(v, k)); }''
     @ ''    get headers() { return this._headers; }''
     @ ''  }''
     @ ''  class Response {''
     @ ''    constructor(body, init) {''
     @ ''      this.body = body || null;''
     @ ''      this.status = (init && init.status) || 200;''
     @ ''      this.statusText = (init && init.statusText) || 'OK';''
     @ ''      this.headers = new Headers(init && init.headers);''
     @ ''      this.ok = this.status >= 200 && this.status < 300;''
     @ ''    }''
     @ ''    static json(data) {''
     @ ''      const bodyStr = JSON.stringify(data);''
     @ ''      return new Response(bodyStr, {''
     @ ''        headers: { 'Content-Type': 'application/json' }''
     @ ''      });''
     @ ''    }''
     @ ''    static text(text) {''
     @ ''      return new Response(String(text), {''
     @ ''        headers: { 'Content-Type': 'text/plain' }''
     @ ''      });''
     @ ''    }''
     @ ''  }''
     @ ''  globalThis.Response = Response;''
     @ ''  globalThis.Headers = Headers;''
     @ ''})();''\<close>

definition request_polyfill :: string where
  \<open>request_polyfill =
     ''(function() {''
     @ ''  class Request {''
     @ ''    constructor(input, init) {''
     @ ''      if (typeof input === 'string') {''
     @ ''        this.url = input;''
     @ ''      } else if (input && input.url) {''
     @ ''        this.url = input.url;''
     @ ''        this.method = input.method || 'GET';''
     @ ''        this.headers = input.headers || new Headers();''
     @ ''        this.body = input.body || null;''
     @ ''      } else {''
     @ ''        this.url = '/';''
     @ ''      }''
     @ ''      if (init) {''
     @ ''        this.method = init.method || this.method || 'GET';''
     @ ''        this.headers = new Headers(init.headers || this.headers);''
     @ ''        this.body = init.body || this.body || null;''
     @ ''      } else {''
     @ ''        this.method = this.method || 'GET';''
     @ ''        this.headers = this.headers || new Headers();''
     @ ''        this.body = this.body || null;''
     @ ''      }''
     @ ''    }''
     @ ''  }''
     @ ''  globalThis.Request = Request;''
     @ ''})();''\<close>

definition console_inject :: string where
  \<open>console_inject =
     ''(function(){''
     @ ''  function stringifyArgs(args){''
     @ ''    if (!args || args.length === 0) return '' @ [CHR 0x27] @ [CHR 0x27] @ '';''
     @ ''    try {''
     @ ''      return Array.from(args).map(function(x){''
     @ ''        if (x === null) return 'null';''
     @ ''        if (typeof x === 'object') return JSON.stringify(x);''
     @ ''        return String(x);''
     @ ''      }).join(' ');''
     @ ''    } catch(e) { return String(args[0]); }''
     @ ''  }''
     @ ''  globalThis.console = {''
     @ ''    log: function(){ __bunbase_log('info', stringifyArgs(arguments)); },''
     @ ''    info: function(){ __bunbase_log('info', stringifyArgs(arguments)); },''
     @ ''    warn: function(){ __bunbase_log('warn', stringifyArgs(arguments)); },''
     @ ''    error: function(){ __bunbase_log('error', stringifyArgs(arguments)); },''
     @ ''    debug: function(){ __bunbase_log('debug', stringifyArgs(arguments)); }''
     @ ''  };''
     @ ''})();''\<close>

text \<open>
  Evaluating one of these scripts: an exception is a warning on stderr and startup goes
  on. \<open>False\<close> when the evaluation never returns.
\<close>

definition install_script :: "'h engine \<Rightarrow> string \<Rightarrow> string \<Rightarrow> 'h worker \<Rightarrow> bool \<times> 'h worker" where
  "install_script eng script what s =
     (let r = JS_Eval eng (ctx s) script;
          s1 = guest_logs eng (fst r) (s\<lparr>ctx := snd r\<rparr>)
      in case outcome (fst r) of
           Diverged \<Rightarrow> (False, s1)
         | Thrown error \<Rightarrow>
             (True, fprintf_stderr (''[WARN] Failed to add '' @ what @ '': '' @ pct_s error @ [CHR 0x0A]) s1)
         | Returned v \<Rightarrow> (True, s1))"

definition and_then :: "bool \<times> 's \<Rightarrow> ('s \<Rightarrow> bool \<times> 's) \<Rightarrow> bool \<times> 's" where
  "and_then r f = (if fst r then f (snd r) else r)"

definition add_base64_polyfills :: "'h engine \<Rightarrow> 'h worker \<Rightarrow> bool \<times> 'h worker" where
  "add_base64_polyfills eng s = install_script eng base64_polyfill ''Base64 polyfills'' s"

definition add_web_apis :: "'h engine \<Rightarrow> 'h worker \<Rightarrow> bool \<times> 'h worker" where
  "add_web_apis eng s =
     and_then
       (and_then (install_script eng url_polyfill ''URL polyfill'' s)
          (install_script eng response_polyfill ''Response polyfill''))
       (install_script eng request_polyfill ''Request polyfill'')"

definition JS_SetPropertyStr_global :: "string \<Rightarrow> jsval \<Rightarrow> 'h guest \<Rightarrow> 'h guest" where
  "JS_SetPropertyStr_global name v g =
     g\<lparr>globals := (name, v) # filter (\<lambda>p. fst p \<noteq> name) (globals g)\<rparr>"

definition JS_DeleteProperty_global :: "string \<Rightarrow> 'h guest \<Rightarrow> 'h guest" where
  "JS_DeleteProperty_global name g = g\<lparr>globals := filter (\<lambda>p. fst p \<noteq> name) (globals g)\<rparr>"

definition add_console_override :: "'h engine \<Rightarrow> 'h worker \<Rightarrow> bool \<times> 'h worker" where
  "add_console_override eng s =
     install_script eng console_inject ''console override''
       (s\<lparr>ctx := JS_SetPropertyStr_global ''__bunbase_log'' (JS_Function ''__bunbase_log'') (ctx s)\<rparr>)"

subsection \<open>What atob and the request script compute (main.c lines 199-213, 691, 367-392)\<close>

text \<open>
  The function atob of base64_polyfill, statement by statement. The argument is a string
  of ASCII characters, one character per code unit; the result is the list of the code
  units of \<open>output\<close>, \<open>None\<close> when atob throws. \<open>chars\<close> ends with "=", so that
  \<open>chars.indexOf\<close> finds "=" at index 64; \<open>indexOf\<close> is \<open>None\<close> where JavaScript
  gives -1.
\<close>

definition atob_chars :: string where
  "atob_chars = ''ABCDEFGHIJKLMNOPQRSTUVWXYZabcdefghijklmnopqrstuvwxyz0123456789+/=''"

fun indexOf :: "string \<Rightarrow> char \<Rightarrow> nat option" where
  "indexOf [] ch = None"
| "indexOf (c # cs) ch = (if c = ch then Some 0 else map_option Suc (indexOf cs ch))"

text \<open>\<open>String(input).replace(/=+$/, '')\<close>: the "=" at the end are removed.\<close>

definition strip_padding :: "string \<Rightarrow> string" where
  "strip_padding str = rev (dropWhile (\<lambda>c. c = CHR ''='') (rev str))"

text \<open>\<open>-2 * bc & 6\<close>, on the two's complement of \<open>-2 * bc\<close>.\<close>

definition atob_shift :: "nat \<Rightarrow> nat" where
  "atob_shift bc = (8 - 2 * (bc mod 4)) mod 8"

text \<open>
  The for loop: the list is \<open>str\<close> from index \<open>i\<close> on. A character that is not in
  \<open>chars\<close> changes nothing (\<open>~buffer\<close> is 0); otherwise \<open>bs\<close> takes the index, \<open>bc\<close> is
  incremented, and unless the old \<open>bc\<close> was a multiple of 4 the character
  \<open>255 & bs >> (-2 * bc & 6)\<close>, with the new \<open>bc\<close>, is appended to \<open>output\<close>.
\<close>

fun atob_loop :: "nat \<Rightarrow> nat \<Rightarrow> string \<Rightarrow> nat list" where
  "atob_loop bc bs [] = []"
| "atob_loop bc bs (ch # rest) =
     (case indexOf atob_chars ch of
        None \<Rightarrow> atob_loop bc bs rest
      | Some buffer \<Rightarrow>
          (if bc mod 4 \<noteq> 0 then
             ((bs * 64 + buffer) div 2 ^ atob_shift (bc + 1) mod 256)
               # atob_loop (bc + 1) (bs * 64 + buffer) rest
           else atob_loop (bc + 1) buffer rest))"

definition atob :: "string \<Rightarrow> nat list option" where
  "atob input =
     (let str = strip_padding input
      in if length str mod 4 = 1 then None else Some (atob_loop 0 0 str))"

text \<open>
  The body the request script gives the Request it returns. Line 691 computes
  \<open>'%s' ? atob('%s') : null\<close> with body_base64 for both \<open>%s\<close>, and the constructor of
  request_polyfill stores \<open>init.body || this.body || null\<close>: the empty string and null
  both end as null. The text between the quotes is body_base64 itself as long as it has
  no quote, backslash or line break in it. \<open>None\<close> when atob throws.
\<close>

definition request_body :: "string \<Rightarrow> jsval option" where
  "request_body body_base64 =
     (if body_base64 \<noteq> [] then
        (case atob body_base64 of
           None \<Rightarrow> None
         | Some output \<Rightarrow> Some (if output \<noteq> [] then JS_String output else JS_NULL))
      else Some JS_NULL)"

subsection \<open>Capabilities (main.c lines 36-46, 152-175)\<close>

text \<open>
  The four flags. max_memory and max_fds only feed setrlimit, a side effect on the
  process that the model leaves out.
\<close>

record capabilities_t =
  allow_filesystem :: bool
  allow_network :: bool
  allow_child_process :: bool
  allow_eval :: bool

definition setup_capabilities :: "(string \<Rightarrow> string option) \<Rightarrow> capabilities_t" where
  "setup_capabilities getenv =
     \<lparr>allow_filesystem = (getenv ''ALLOW_FILESYSTEM'' \<noteq> None),
      allow_network = (getenv ''ALLOW_NETWORK'' \<noteq> None),
      allow_child_process = (getenv ''ALLOW_CHILD_PROCESS'' \<noteq> None),
      allow_eval = (getenv ''ALLOW_EVAL'' \<noteq> None)\<rparr>"

subsection \<open>Bundle loader: load_bundle (main.c lines 509-663)\<close>

definition MAX_BUNDLE_SIZE :: nat where
  "MAX_BUNDLE_SIZE = 10 * 1024 * 1024"

definition load_failed :: "string \<Rightarrow> string option \<Rightarrow> 'h worker \<Rightarrow> int option \<times> 'h worker" where
  "load_failed what error s =
     (Some (- 1), fprintf_stderr (''[ERROR] '' @ what @ '': '' @ pct_s error @ [CHR 0x0A]) s)"

text \<open>Steps 7 and 5 (sic) of load_bundle, lines 617-662: from the module to the handler.\<close>

definition retain_handler :: "'h engine \<Rightarrow> 'h worker \<Rightarrow> jsval \<Rightarrow> int option \<times> 'h worker" where
  "retain_handler eng s module_func =
     (case JS_GetModuleNamespace eng (ctx s) module_func of
        Inl error \<Rightarrow> load_failed ''Failed to get module namespace'' error s
      | Inr module_ns \<Rightarrow>
          (let default_export = JS_GetPropertyStr module_ns ''default''
           in if JS_IsFunction default_export then (Some 0, s\<lparr>handler_func := default_export\<rparr>)
              else
                (let handler = JS_GetPropertyStr module_ns ''handler''
                 in if JS_IsFunction handler then (Some 0, s\<lparr>handler_func := handler\<rparr>)
                    else
                      (Some (- 1),
                       fprintf_stderr
                         (''[ERROR] No handler function found (expected default export or 'handler')''
                          @ [CHR 0x0A]) s))))"

text \<open>Steps 5 and 6, lines 590-615: run the module function and await its result.\<close>

definition run_module :: "'h engine \<Rightarrow> 'h worker \<Rightarrow> jsval \<Rightarrow> int option \<times> 'h worker" where
  "run_module eng s module_func =
     (let r1 = JS_EvalFunction eng (ctx s) module_func;
          s1 = guest_logs eng (fst r1) (s\<lparr>ctx := snd r1\<rparr>)
      in case outcome (fst r1) of
           Diverged \<Rightarrow> (None, s1)
         | Thrown error \<Rightarrow> load_failed ''Failed to execute bundle'' error s1
         | Returned result \<Rightarrow>
             (let r2 = js_std_await eng (ctx s1) result;
                  s2 = guest_logs eng (fst r2) (s1\<lparr>ctx := snd r2\<rparr>)
              in case outcome (fst r2) of
                   Diverged \<Rightarrow> (None, s2)
                 | Thrown error \<Rightarrow> load_failed ''Module execution failed'' error s2
                 | Returned awaited \<Rightarrow> retain_handler eng s2 module_func))"

text \<open>
  The file is what fopen and fread give for the path (\<open>None\<close>: it cannot be opened);
  malloc is taken to succeed.
\<close>

definition load_bundle ::
  "'h engine \<Rightarrow> (string \<Rightarrow> string option) \<Rightarrow> 'h worker \<Rightarrow> string \<Rightarrow> int option \<times> 'h worker" where
  "load_bundle eng fopen s path =
     (case fopen path of
        None \<Rightarrow>
          (Some (- 1), fprintf_stderr (''[ERROR] Failed to open bundle: '' @ path @ [CHR 0x0A]) s)
      | Some code \<Rightarrow>
          if length code > MAX_BUNDLE_SIZE then
            (Some (- 1),
             fprintf_stderr
               (''[ERROR] Bundle too large: '' @ printf_d (int (length code)) @ '' bytes'' @ [CHR 0x0A]) s)
          else
            (case JS_Eval_compile eng code path of
               Inl error \<Rightarrow> load_failed ''Failed to compile bundle'' error s
             | Inr module_func \<Rightarrow>
                 (case JS_ResolveModule eng module_func of
                    Some error \<Rightarrow> load_failed ''Failed to resolve module'' error s
                  | None \<Rightarrow>
                      (case js_module_set_import_meta eng module_func of
                         Some error \<Rightarrow> load_failed ''Failed to set import.meta'' error s
                       | None \<Rightarrow>
                           if JS_VALUE_GET_PTR_null eng module_func then
                             (Some (- 1),
                              fprintf_stderr (''[ERROR] Failed to get module definition'' @ [CHR 0x0A]) s)
                           else run_module eng s module_func))))"

subsection \<open>main (main.c lines 951-1030)\<close>

text \<open>
  Lines 986-1006: helpers, the shims, then the removal of eval and Function when the
  capability is not granted.
\<close>

definition install_shims :: "'h engine \<Rightarrow> 'h worker \<Rightarrow> bool \<times> 'h worker" where
  "install_shims eng s =
     and_then
       (and_then (add_base64_polyfills eng (s\<lparr>ctx := js_std_add_helpers eng (ctx s)\<rparr>))
          (add_web_apis eng))
       (add_console_override eng)"

definition disable_eval :: "capabilities_t \<Rightarrow> 'h worker \<Rightarrow> 'h worker" where
  "disable_eval caps s =
     (if \<not> allow_eval caps then
        s\<lparr>ctx := JS_DeleteProperty_global ''Function'' (JS_DeleteProperty_global ''eval'' (ctx s))\<rparr>
      else s)"

definition startup :: "'h engine \<Rightarrow> capabilities_t \<Rightarrow> 'h worker \<Rightarrow> bool \<times> 'h worker" where
  "startup eng caps s =
     (case install_shims eng s of
        (True, s1) \<Rightarrow> (True, disable_eval caps s1)
      | (False, s1) \<Rightarrow> (False, s1))"

text \<open>
  Lines 1008-1029, from the state startup leaves: load the bundle, announce readiness,
  serve stdin. The result is how the process ends, with its exit status when main
  returns, and what was written to stdout and stderr until then.
\<close>

definition serve ::
  "'h engine \<Rightarrow> (string \<Rightarrow> string option) \<Rightarrow> string \<Rightarrow> string \<Rightarrow> string list \<Rightarrow> 'h worker
     \<Rightarrow> int ending \<times> emitted list \<times> string list" where
  "serve eng fopen bundle_path worker_id stdin s =
     (case load_bundle eng fopen s bundle_path of
        (None, s1) \<Rightarrow> (Never_returns, stdout s1, stderr s1)
      | (Some rc, s1) \<Rightarrow>
          if rc \<noteq> 0 then
            (let s2 = emit (send_error ''bundle-load'' (Some ''Failed to load bundle'')
                              (Some ''BUNDLE_LOAD_ERROR'')) s1
             in (Returns 1, stdout s2, stderr s2))
          else
            (let s2 = emit (send_ready worker_id) s1
             in case process_messages eng s2 stdin of
                  (Returns u, s3) \<Rightarrow> (Returns 0, stdout s3, stderr s3)
                | (Never_returns, s3) \<Rightarrow> (Never_returns, stdout s3, stderr s3)
                | (Undefined_behaviour, s3) \<Rightarrow> (Undefined_behaviour, stdout s3, stderr s3)))"

definition main ::
  "'h engine \<Rightarrow> (string \<Rightarrow> string option) \<Rightarrow> (string \<Rightarrow> string option) \<Rightarrow> nat \<Rightarrow> string list
     \<Rightarrow> int ending \<times> emitted list \<times> string list" where
  "main eng getenv fopen getpid stdin =
     (let worker_id =
            (case getenv ''WORKER_ID'' of
               Some wid \<Rightarrow> take 63 wid
             | None \<Rightarrow> snprintf 64 (''worker-'' @ printf_d (int getpid)))
      in case getenv ''BUNDLE_PATH'' of
           None \<Rightarrow> (Returns 1, [], [''[ERROR] BUNDLE_PATH environment variable required'' @ [CHR 0x0A]])
         | Some bundle_path \<Rightarrow>
             if \<not> JS_NewRuntime eng then
               (Returns 1, [], [''[ERROR] Failed to create QuickJS runtime'' @ [CHR 0x0A]])
             else
               (case JS_NewContext eng of
                  None \<Rightarrow> (Returns 1, [], [''[ERROR] Failed to create QuickJS context'' @ [CHR 0x0A]])
                | Some c0 \<Rightarrow>
                    (case startup eng (setup_capabilities getenv)
                            \<lparr>handler_func = JS_UNDEFINED, current_invoke_id = [], ctx = c0,
                             stdout = [], stderr = []\<rparr> of
                       (False, s) \<Rightarrow> (Never_returns, stdout s, stderr s)
                     | (True, s) \<Rightarrow> serve eng fopen bundle_path worker_id stdin s)))"

section \<open>Notions the claims are stated with\<close>

text \<open>MAX_LINE_LENGTH (main.c line 24); no function of main.c refers to it.\<close>

definition MAX_LINE_LENGTH :: nat where
  "MAX_LINE_LENGTH = 1024 * 1024"

text \<open>A chunk written to stdout is one newline-terminated line.\<close>

definition one_line :: "string \<Rightarrow> bool" where
  "one_line l = (l \<noteq> [] \<and> last l = CHR 0x0A \<and> CHR 0x0A \<notin> set (butlast l))"

text \<open>The response and error records among the records written.\<close>

definition replies :: "emitted list \<Rightarrow> emitted list" where
  "replies out = filter (\<lambda>e. e_type e = ''response'' \<or> e_type e = ''error'') out"

text \<open>What a step wrote to stdout: the records of the later state past those of the earlier.\<close>

definition emitted_since :: "'h worker \<Rightarrow> 'h worker \<Rightarrow> emitted list" where
  "emitted_since s s' = drop (length (stdout s)) (stdout s')"

text \<open>
  What \<open>typeof x\<close> gives guest code for a global name \<open>x\<close>, from the property of the
  global object (\<open>None\<close>: there is none).
\<close>

definition js_typeof :: "jsval option \<Rightarrow> string" where
  "js_typeof binding =
     (case binding of
        None \<Rightarrow> ''undefined''
      | Some JS_UNDEFINED \<Rightarrow> ''undefined''
      | Some JS_NULL \<Rightarrow> ''object''
      | Some JS_EXCEPTION \<Rightarrow> ''undefined''
      | Some (JS_Bool b) \<Rightarrow> ''boolean''
      | Some (JS_Int i) \<Rightarrow> ''number''
      | Some (JS_String str) \<Rightarrow> ''string''
      | Some (JS_Object props) \<Rightarrow> ''object''
      | Some (JS_Function f) \<Rightarrow> ''function'')"

section \<open>A small engine and inputs to run the worker on\<close>

definition js_ascii :: "string \<Rightarrow> jsval" where
  "js_ascii str = JS_String (map of_char str)"

definition quiet :: "jsval \<Rightarrow> guest_run" where
  "quiet v = \<lparr>log_calls = [], outcome = Returned v\<rparr>"

definition hanging :: guest_run where
  "hanging = \<lparr>log_calls = [], outcome = Diverged\<rparr>"

definition invoke_a :: string where
  \<open>invoke_a = ''{"id":"a","type":"invoke","payload":{"method":"GET","path":"/hi","headers":{},"query":{},"body":""}}''\<close>

definition msg_a :: jsval where
  "msg_a = JS_Object
     [(''id'', js_ascii ''a''), (''type'', js_ascii ''invoke''),
      (''payload'', JS_Object
         [(''method'', js_ascii ''GET''), (''path'', js_ascii ''/hi''), (''headers'', JS_Object []),
          (''query'', JS_Object []), (''body'', js_ascii [])])]"

definition invoke_b :: string where
  \<open>invoke_b = ''{"id":"b","type":"invoke","payload":{"method":"GET","path":"/hi","headers":{},"query":{},"body":"a"}}''\<close>

definition msg_b :: jsval where
  "msg_b = JS_Object
     [(''id'', js_ascii ''b''), (''type'', js_ascii ''invoke''),
      (''payload'', JS_Object
         [(''method'', js_ascii ''GET''), (''path'', js_ascii ''/hi''), (''headers'', JS_Object []),
          (''query'', JS_Object []), (''body'', js_ascii ''a'')])]"

definition invoke_bare :: string where
  \<open>invoke_bare = ''{"type":"invoke"}''\<close>

definition msg_bare :: jsval where
  "msg_bare = JS_Object [(''type'', js_ascii ''invoke'')]"

text \<open>The three lines above, parsed as JSON does: white space after the value is skipped.\<close>

definition demo_parse :: "string \<Rightarrow> string option + jsval" where
  "demo_parse line =
     (case map_of [(invoke_a, msg_a), (invoke_b, msg_b), (invoke_bare, msg_bare)]
             (rev (dropWhile (\<lambda>c. c = CHR '' '') (rev line))) of
        Some v \<Rightarrow> Inr v
      | None \<Rightarrow> Inl (Some ''SyntaxError: unexpected token''))"

definition demo_request :: jsval where
  "demo_request = JS_Object
     [(''url'', js_ascii ''http://localhost/hi''), (''method'', js_ascii ''GET''),
      (''headers'', JS_Object [(''_headers'', JS_Object [])]), (''body'', JS_NULL)]"

definition demo_response :: jsval where
  "demo_response = JS_Object
     [(''body'', js_ascii ''ok''), (''status'', JS_Int 200),
      (''headers'', JS_Object [(''_headers'', JS_Object [(''content-type'', js_ascii ''text/plain'')])])]"

definition demo_namespace :: jsval where
  "demo_namespace = JS_Object [(''default'', JS_Function ''handler'')]"

text \<open>
  The handler of this engine does \<open>console.log("n=", 3); return Response.text("ok")\<close>.
\<close>

definition demo_call :: guest_run where
  "demo_call = \<lparr>log_calls = [[js_ascii ''info'', js_ascii ''n= 3'']], outcome = Returned demo_response\<rparr>"

definition demo_engine :: "unit engine" where
  \<open>demo_engine =
     \<lparr>JS_NewRuntime = True,
      JS_NewContext =
        Some \<lparr>globals = [(''eval'', JS_Function ''eval''), (''Function'', JS_Function ''Function'')],
              heap = ()\<rparr>,
      js_std_add_helpers = (\<lambda>g. g),
      JS_ParseJSON = demo_parse,
      JS_JSONStringify =
        (\<lambda>v. if v = JS_Object [] then js_ascii ''{}''
             else if v = JS_Object [(''content-type'', js_ascii ''text/plain'')]
             then js_ascii ''{"content-type":"text/plain"}''
             else JS_UNDEFINED),
      JS_ToInt32 = (\<lambda>v. case v of JS_Int i \<Rightarrow> i | _ \<Rightarrow> 0),
      JS_ToString =
        (\<lambda>v. case v of
               JS_Object props \<Rightarrow>
                 if map_of props ''toString'' = None then js_ascii ''[object Object]'' else JS_EXCEPTION
             | _ \<Rightarrow> JS_EXCEPTION),
      JS_Eval = (\<lambda>g code. (quiet demo_request, g)),
      JS_Call = (\<lambda>g f args. (demo_call, g)),
      js_std_await = (\<lambda>g v. (quiet v, g)),
      JS_Eval_compile = (\<lambda>code path. Inr (JS_Object [])),
      JS_ResolveModule = (\<lambda>m. None),
      js_module_set_import_meta = (\<lambda>m. None),
      JS_VALUE_GET_PTR_null = (\<lambda>m. False),
      JS_EvalFunction = (\<lambda>g m. (quiet JS_UNDEFINED, g)),
      JS_GetModuleNamespace = (\<lambda>g m. Inr demo_namespace)\<rparr>\<close>

text \<open>The same engine with a handler that never returns, such as \<open>() => new Promise(() => {})\<close>.\<close>

definition hanging_engine :: "unit engine" where
  "hanging_engine = demo_engine\<lparr>JS_Call := (\<lambda>g f args. (hanging, g))\<rparr>"

text \<open>
  The same engine on a request script that throws: so does the script of \<open>invoke_b\<close>,
  whose body "a" atob refuses.
\<close>

definition atob_failed :: guest_run where
  \<open>atob_failed =
     \<lparr>log_calls = [],
      outcome = Thrown (Some ''Error: 'atob' failed: The string to be decoded is not correctly encoded.'')\<rparr>\<close>

definition rejecting_engine :: "unit engine" where
  "rejecting_engine = demo_engine\<lparr>JS_Eval := (\<lambda>g code. (atob_failed, g))\<rparr>"

text \<open>The same engine on a bundle that is \<open>export default 1\<close>: nothing callable is exported.\<close>

definition no_handler_engine :: "unit engine" where
  "no_handler_engine = demo_engine\<lparr>JS_GetModuleNamespace := (\<lambda>g m. Inr (JS_Object [(''default'', JS_Int 1)]))\<rparr>"

definition booted :: "unit worker" where
  "booted = \<lparr>handler_func = JS_UNDEFINED, current_invoke_id = [],
             ctx = \<lparr>globals = [], heap = ()\<rparr>, stdout = [], stderr = []\<rparr>"

definition loaded :: "unit worker" where
  "loaded = booted\<lparr>handler_func := JS_Function ''handler''\<rparr>"

definition demo_getenv :: "string \<Rightarrow> string option" where
  "demo_getenv name = (if name = ''BUNDLE_PATH'' then Some ''/bundle.js'' else None)"

definition demo_fopen :: "string \<Rightarrow> string option" where
  "demo_fopen path = (if path = ''/bundle.js'' then Some ''export default () => Response.text(typeof eval);'' else None)"

definition long_id :: string where
  "long_id = replicate 64 (CHR ''a'')"

definition long_path :: string where
  "long_path = replicate 1024 (CHR ''a'')"

definition padded :: "nat \<Rightarrow> string" where
  "padded n = invoke_bare @ replicate n (CHR '' '') @ [CHR 0x0A]"

section \<open>Base64 as RFC 4648 defines it\<close>

text \<open>
  The standard alphabet and the encoding of RFC 4648, section 4: three octets give four
  characters, a final group of one or two octets is padded with "=". This is the
  reference the worker's own encoder and decoder are compared with.
\<close>

definition standard_alphabet :: string where
  "standard_alphabet = ''ABCDEFGHIJKLMNOPQRSTUVWXYZabcdefghijklmnopqrstuvwxyz0123456789+/''"

fun standard_base64 :: "string \<Rightarrow> string" where
  "standard_base64 (x # y # z # rest) =
     [standard_alphabet ! (of_char x div 4),
      standard_alphabet ! (of_char x mod 4 * 16 + of_char y div 16),
      standard_alphabet ! (of_char y mod 16 * 4 + of_char z div 64),
      standard_alphabet ! (of_char z mod 64)] @ standard_base64 rest"
| "standard_base64 [x, y] =
     [standard_alphabet ! (of_char x div 4),
      standard_alphabet ! (of_char x mod 4 * 16 + of_char y div 16),
      standard_alphabet ! (of_char y mod 16 * 4),
      CHR ''='']"
| "standard_base64 [x] =
     [standard_alphabet ! (of_char x div 4),
      standard_alphabet ! (of_char x mod 4 * 16),
      CHR ''='', CHR ''='']"
| "standard_base64 [] = []"

text \<open>A response body of 12286 bytes, and an engine whose handler returns it.\<close>

definition long_body :: string where
  "long_body = replicate 12286 (CHR ''a'')"

definition long_response :: jsval where
  "long_response = JS_Object [(''body'', js_ascii long_body), (''status'', JS_Int 200)]"

definition long_body_engine :: "unit engine" where
  "long_body_engine = demo_engine\<lparr>JS_Call := (\<lambda>g f args. (quiet long_response, g))\<rparr>"

text \<open>The encoding of RFC 4648 without its padding, which is what atob has left after its first statement.\<close>

fun standard_unpadded :: "string \<Rightarrow> string" where
  "standard_unpadded (x # y # z # rest) =
     [standard_alphabet ! (of_char x div 4),
      standard_alphabet ! (of_char x mod 4 * 16 + of_char y div 16),
      standard_alphabet ! (of_char y mod 16 * 4 + of_char z div 64),
      standard_alphabet ! (of_char z mod 64)] @ standard_unpadded rest"
| "standard_unpadded [x, y] =
     [standard_alphabet ! (of_char x div 4),
      standard_alphabet ! (of_char x mod 4 * 16 + of_char y div 16),
      standard_alphabet ! (of_char y mod 16 * 4)]"
| "standard_unpadded [x] =
     [standard_alphabet ! (of_char x div 4),
      standard_alphabet ! (of_char x mod 4 * 16)]"
| "standard_unpadded [] = []"

text \<open>
  An engine for an invoke record with method POST, path "/", no headers, no query and the
  given body, on the bundle \<open>export default (req) => new Response(req.body)\<close>: the
  request script returns the Request with the body \<open>request_body\<close> computes, or throws
  where atob does, and the handler returns a Response with the body of its Request.
\<close>

definition echo_request :: "jsval \<Rightarrow> jsval" where
  "echo_request body = JS_Object
     [(''url'', js_ascii ''http://localhost/''), (''method'', js_ascii ''POST''),
      (''headers'', JS_Object [(''_headers'', JS_Object [])]), (''body'', body)]"

definition echo_response :: "jsval \<Rightarrow> jsval" where
  "echo_response req = JS_Object
     [(''body'', JS_GetPropertyStr req ''body''), (''status'', JS_Int 200),
      (''statusText'', js_ascii ''OK''),
      (''headers'', JS_Object [(''_headers'', JS_Object [])]), (''ok'', JS_Bool True)]"

definition echo_engine :: "string \<Rightarrow> unit engine" where
  "echo_engine body_base64 =
     demo_engine
       \<lparr>JS_Eval :=
          (\<lambda>g code.
             if code = request_code ''/'' ''{}'' ''{}'' body_base64 ''POST'' then
               (case request_body body_base64 of
                  None \<Rightarrow> (atob_failed, g)
                | Some body \<Rightarrow> (quiet (echo_request body), g))
             else (quiet JS_UNDEFINED, g)),
        JS_Call := (\<lambda>g f args. (quiet (echo_response (hd args)), g))\<rparr>"

text \<open>The byte 0xFF, and the two bytes of the UTF-8 encoding of the character U+00FF.\<close>

definition high_byte :: string where
  "high_byte = [CHR 0xFF]"

definition high_byte_utf8 :: string where
  "high_byte_utf8 = [CHR 0xC3, CHR 0xBF]"

text \<open>
  The guest code of one invocation comes to an end: the request script returns or
  throws, and so do the handler call and the await of its result when they are reached.
\<close>

definition guest_code_ends :: "'h engine \<Rightarrow> 'h worker \<Rightarrow> string \<Rightarrow> bool" where
  "guest_code_ends eng s code =
     (let r1 = JS_Eval eng (ctx s) code
      in case outcome (fst r1) of
           Diverged \<Rightarrow> False
         | Thrown error \<Rightarrow> True
         | Returned request_val \<Rightarrow>
             (let r2 = JS_Call eng (snd r1) (handler_func s) [request_val]
              in case outcome (fst r2) of
                   Diverged \<Rightarrow> False
                 | Thrown error \<Rightarrow> True
                 | Returned promise \<Rightarrow> outcome (fst (js_std_await eng (snd r2) promise)) \<noteq> Diverged))"

text \<open>
  A single-quoted string literal of JavaScript, read from the text that follows its
  opening quote: the characters up to the closing quote, and the text after it. A
  backslash starts an escape sequence and a line break ends the line inside the literal;
  neither is read here (\<open>None\<close>).
\<close>

fun single_quoted :: "string \<Rightarrow> (string \<times> string) option" where
  "single_quoted [] = None"
| "single_quoted (c # cs) =
     (if c = CHR 0x27 then Some ([], cs)
      else if c = CHR 0x5C \<or> c = CHR 0x0A \<or> c = CHR 0x0D then None
      else map_option (\<lambda>(v, rest). (c # v, rest)) (single_quoted cs))"

text \<open>A path of 19 bytes with two quotes in it.\<close>

definition quoted_path :: string where
  \<open>quoted_path = ''/';globalThis.x=1;'' @ [CHR 0x27]\<close>

text \<open>A global object in which neither eval nor Function is bound.\<close>

definition without_eval :: "'h guest \<Rightarrow> bool" where
  "without_eval g = (map_of (globals g) ''eval'' = None \<and> map_of (globals g) ''Function'' = None)"

text \<open>
  \<open>Response.text(t)\<close>, and engines for bundles of the form
  \<open>...; export default () => Response.text(...)\<close>: executing the module changes the
  global object by \<open>effect\<close>, the handler answers with what \<open>observe\<close> gives in the
  global object it runs in.
\<close>

definition text_response :: "string \<Rightarrow> jsval" where
  "text_response t = JS_Object
     [(''body'', js_ascii t), (''status'', JS_Int 200),
      (''headers'', JS_Object [(''_headers'', JS_Object [(''content-type'', js_ascii ''text/plain'')])])]"

definition bundle_engine :: "(unit guest \<Rightarrow> unit guest) \<Rightarrow> (unit guest \<Rightarrow> string) \<Rightarrow> unit engine" where
  "bundle_engine effect observe =
     demo_engine
       \<lparr>JS_Call := (\<lambda>g f args. (quiet (text_response (observe g)), g)),
        JS_EvalFunction := (\<lambda>g m. (quiet JS_UNDEFINED, effect g))\<rparr>"

text \<open>The bundle \<open>export default () => Response.text(typeof eval);\<close> of the spec's example.\<close>

definition typeof_engine :: "unit engine" where
  "typeof_engine = bundle_engine (\<lambda>g. g) (\<lambda>g. js_typeof (map_of (globals g) ''eval''))"

text \<open>The bundle \<open>export default () => Response.text("undefined");\<close>.\<close>

definition undefined_engine :: "unit engine" where
  "undefined_engine = bundle_engine (\<lambda>g. g) (\<lambda>g. ''undefined'')"

text \<open>
  The bundle \<open>globalThis.eval = () => 1; export default () => Response.text(typeof eval);\<close>.
\<close>

definition redefining_engine :: "unit engine" where
  "redefining_engine =
     bundle_engine (JS_SetPropertyStr_global ''eval'' (JS_Function ''() => 1''))
       (\<lambda>g. js_typeof (map_of (globals g) ''eval''))"

definition redefining_fopen :: "string \<Rightarrow> string option" where
  "redefining_fopen path =
     (if path = ''/bundle.js''
      then Some ''globalThis.eval = () => 1; export default () => Response.text(typeof eval);''
      else None)"

section \<open>Properties\<close>

subsection \<open>Shared lemmas\<close>

lemma snprintf_short: "length str < n \<Longrightarrow> snprintf n str = str"
  by (simp add: snprintf_def)

lemma e_type_send [simp]:
  "e_type (send_message ty rid p) = ty" "e_id (send_message ty rid p) = rid"
  by (simp_all add: send_message_def)

lemma send_kinds [simp]:
  "e_type (send_error rid m c) = ''error''" "e_id (send_error rid m c) = rid"
  "e_type (send_response rid st h b) = ''response''" "e_id (send_response rid st h b) = rid"
  "e_type (send_log rid l m) = ''log''" "e_id (send_log rid l m) = rid"
  by (simp_all add: send_error_def send_response_def send_log_def)

lemma js_bunbase_log_kind [simp]:
  "e_type (js_bunbase_log eng cur argv) = ''log''"
  "e_id (js_bunbase_log eng cur argv) = (if cur \<noteq> [] then cur else ''bundle'')"
  by (simp_all add: js_bunbase_log_def split: list.splits)

lemma replies_Nil [simp]: "replies [] = []"
  by (simp add: replies_def)

lemma replies_logs [simp]: "replies (map (js_bunbase_log eng cur) calls) = []"
  by (induction calls) (simp_all add: replies_def)

lemma replies_append [simp]: "replies (xs @ ys) = replies xs @ replies ys"
  by (simp add: replies_def)

lemma replies_single [simp]:
  "replies [send_error rid m c] = [send_error rid m c]"
  "replies [send_response rid st h b] = [send_response rid st h b]"
  by (simp_all add: replies_def)

lemma guest_logs_simps [simp]:
  "stdout (guest_logs eng r s) = stdout s @ map (js_bunbase_log eng (current_invoke_id s)) (log_calls r)"
  "current_invoke_id (guest_logs eng r s) = current_invoke_id s"
  "handler_func (guest_logs eng r s) = handler_func s"
  "ctx (guest_logs eng r s) = ctx s"
  "stderr (guest_logs eng r s) = stderr s"
  by (simp_all add: guest_logs_def)

lemma emit_simps [simp]:
  "stdout (emit e s) = stdout s @ [e]"
  "current_invoke_id (emit e s) = current_invoke_id s"
  "handler_func (emit e s) = handler_func s"
  "ctx (emit e s) = ctx s"
  "stderr (emit e s) = stderr s"
  by (simp_all add: emit_def)

lemma fprintf_stderr_simps [simp]:
  "stdout (fprintf_stderr m s) = stdout s"
  "current_invoke_id (fprintf_stderr m s) = current_invoke_id s"
  "handler_func (fprintf_stderr m s) = handler_func s"
  "ctx (fprintf_stderr m s) = ctx s"
  "stderr (fprintf_stderr m s) = stderr s @ [m]"
  by (simp_all add: fprintf_stderr_def)

lemma and_then_True [simp]: "and_then (True, s) f = f s"
  by (simp add: and_then_def)

lemma and_then_False [simp]: "and_then (False, s) f = (False, s)"
  by (simp add: and_then_def)

lemma or_default_Some [simp]: "or_default (Some x) d = x"
  by (simp add: or_default_def)

lemma emitted_since_self [simp]: "emitted_since s s = []"
  by (simp add: emitted_since_def)

text \<open>JS_ToCString on strings of ASCII characters other than NUL.\<close>

lemma utf8_ascii: "of_char c < (128::nat) \<Longrightarrow> utf8 (of_char c) = [c]"
  by (simp add: utf8_def)

lemma concat_utf8_ascii:
  "list_all (\<lambda>c. of_char c < (128::nat)) str \<Longrightarrow> concat (map (utf8 \<circ> of_char) str) = str"
  by (induction str) (simp_all add: utf8_ascii)

lemma c_str_no_nul: "list_all (\<lambda>c. c \<noteq> CHR 0x00) str \<Longrightarrow> c_str str = str"
  by (induction str) (simp_all add: c_str_def)

lemma JS_ToCString_ascii:
  "list_all (\<lambda>c. of_char c < (128::nat)) str \<Longrightarrow> list_all (\<lambda>c. c \<noteq> CHR 0x00) str
     \<Longrightarrow> JS_ToCString eng (js_ascii str) = Some str"
  by (simp add: js_ascii_def concat_utf8_ascii c_str_no_nul)

text \<open>The paths through execute_handler, one lemma each.\<close>

lemma eh_not_loaded:
  assumes "JS_IsUndefined (handler_func s)"
  shows "execute_handler eng s iid m p h q b =
           (Some (- 1),
            s\<lparr>stdout := stdout s @ [send_error iid (Some ''Handler not loaded'') (Some ''HANDLER_NOT_LOADED'')]\<rparr>)"
  using assms by (simp add: execute_handler_def emit_def)

lemma eh_request_diverged:
  assumes "\<not> JS_IsUndefined (handler_func s)"
    and "JS_Eval eng (ctx s) (request_code p q h b m) = (r, c)"
    and "outcome r = Diverged"
  shows "execute_handler eng s iid m p h q b =
           (None, s\<lparr>current_invoke_id := take 63 iid, ctx := c,
                    stdout := stdout s @ map (js_bunbase_log eng (take 63 iid)) (log_calls r)\<rparr>)"
  using assms by (simp add: execute_handler_def Let_def emit_def guest_logs_def)

lemma eh_request_thrown:
  assumes "\<not> JS_IsUndefined (handler_func s)"
    and "JS_Eval eng (ctx s) (request_code p q h b m) = (r, c)"
    and "outcome r = Thrown err"
  shows "execute_handler eng s iid m p h q b =
           (Some (- 1), s\<lparr>current_invoke_id := [], ctx := c,
                    stdout := stdout s @ map (js_bunbase_log eng (take 63 iid)) (log_calls r)
                                @ [send_error iid err (Some ''REQUEST_CREATION_ERROR'')]\<rparr>)"
  using assms by (simp add: execute_handler_def Let_def emit_def guest_logs_def)

lemma eh_call_diverged:
  assumes "\<not> JS_IsUndefined (handler_func s)"
    and "JS_Eval eng (ctx s) (request_code p q h b m) = (r1, c1)"
    and "outcome r1 = Returned req"
    and "JS_Call eng c1 (handler_func s) [req] = (r2, c2)"
    and "outcome r2 = Diverged"
  shows "execute_handler eng s iid m p h q b =
           (None, s\<lparr>current_invoke_id := take 63 iid, ctx := c2,
                    stdout := stdout s @ map (js_bunbase_log eng (take 63 iid)) (log_calls r1 @ log_calls r2)\<rparr>)"
  using assms by (simp add: execute_handler_def Let_def emit_def guest_logs_def)

lemma eh_responds:
  assumes "\<not> JS_IsUndefined (handler_func s)"
    and "JS_Eval eng (ctx s) (request_code p q h b m) = (r1, c1)"
    and "outcome r1 = Returned req"
    and "JS_Call eng c1 (handler_func s) [req] = (r2, c2)"
    and "outcome r2 = Returned promise"
    and "js_std_await eng c2 promise = (r3, c3)"
    and "outcome r3 = Returned result"
  shows "execute_handler eng s iid m p h q b =
           (Some 0, s\<lparr>current_invoke_id := [], ctx := c3,
                    stdout := stdout s
                      @ map (js_bunbase_log eng (take 63 iid)) (log_calls r1 @ log_calls r2 @ log_calls r3)
                      @ [send_response iid
                           (response_status eng (JS_GetPropertyStr result ''status''))
                           (response_headers eng (JS_GetPropertyStr result ''headers''))
                           (response_body eng (JS_GetPropertyStr result ''body''))]\<rparr>)"
  using assms by (simp add: execute_handler_def Let_def emit_def guest_logs_def)

lemma execute_handler_reply:
  assumes "execute_handler eng s iid m p h q b = (Some rc, s')"
  shows "\<exists>calls reply. stdout s' = stdout s @ map (js_bunbase_log eng (take 63 iid)) calls @ [reply]
           \<and> replies [reply] = [reply] \<and> e_id reply = iid"
proof (cases "JS_IsUndefined (handler_func s)")
  case True
  with assms have "stdout s' = stdout s @ map (js_bunbase_log eng (take 63 iid)) []
                      @ [send_error iid (Some ''Handler not loaded'') (Some ''HANDLER_NOT_LOADED'')]"
    by (auto simp add: eh_not_loaded)
  then show ?thesis
    by (metis replies_single(1) send_kinds(2))
next
  case False
  with assms show ?thesis
    by (auto simp add: execute_handler_def Let_def split: completion.splits
          simp flip: map_append)
qed

lemma non_logs_of_logs [simp]:
  "filter (\<lambda>e. e_type e \<noteq> ''log'') (map (js_bunbase_log eng cur) calls) = []"
  by (induction calls) simp_all

lemma execute_handler_logs:
  assumes "e \<in> set (emitted_since s (snd (execute_handler eng s iid m p h q b)))"
    and "e_type e = ''log''"
  shows "e_id e = (if take 63 iid = [] then ''bundle'' else take 63 iid)"
  using assms
  by (auto simp add: execute_handler_def Let_def emitted_since_def split: completion.splits if_splits)

lemma process_messages_step:
  "process_line eng s raw = (Returns u, s') \<Longrightarrow> process_messages eng s (raw # rest) = process_messages eng s' rest"
  by simp

text \<open>The stdout of the bundle loader.\<close>

lemma retain_handler_stdout [simp]: "stdout (snd (retain_handler eng s mf)) = stdout s"
  by (simp add: retain_handler_def load_failed_def Let_def split: sum.splits)

lemma run_module_logs:
  assumes "e \<in> set (emitted_since s (snd (run_module eng s mf)))"
  shows "e_type e = ''log'' \<and> e_id e = (if current_invoke_id s = [] then ''bundle'' else current_invoke_id s)"
  using assms
  by (auto simp add: run_module_def Let_def emitted_since_def load_failed_def split: completion.splits if_splits)

lemma load_bundle_logs:
  assumes "e \<in> set (emitted_since s (snd (load_bundle eng fopen s path)))"
  shows "e_type e = ''log'' \<and> e_id e = (if current_invoke_id s = [] then ''bundle'' else current_invoke_id s)"
  using assms
  by (auto simp add: load_bundle_def load_failed_def emitted_since_def
        split: option.splits sum.splits if_splits dest: run_module_logs [unfolded emitted_since_def])

text \<open>The small engine and its inputs.\<close>

lemma booted_simps [simp]:
  "handler_func booted = JS_UNDEFINED" "stdout booted = []" "stderr booted = []"
  "ctx booted = \<lparr>globals = [], heap = ()\<rparr>" "current_invoke_id booted = []"
  by (simp_all add: booted_def)

lemma loaded_simps [simp]:
  "handler_func loaded = JS_Function ''handler''" "stdout loaded = []" "stderr loaded = []"
  "ctx loaded = \<lparr>globals = [], heap = ()\<rparr>" "current_invoke_id loaded = []"
  by (simp_all add: loaded_def)

lemma quiet_simps [simp]: "log_calls (quiet v) = []" "outcome (quiet v) = Returned v"
  by (simp_all add: quiet_def)

lemma demo_engine_simps [simp]:
  "JS_Eval demo_engine g code = (quiet demo_request, g)"
  "JS_Call demo_engine g f args = (demo_call, g)"
  "js_std_await demo_engine g v = (quiet v, g)"
  "JS_ParseJSON demo_engine = demo_parse"
  by (simp_all add: demo_engine_def)

lemma demo_call_simps [simp]:
  "log_calls demo_call = [[js_ascii ''info'', js_ascii ''n= 3'']]"
  "outcome demo_call = Returned demo_response"
  by (simp_all add: demo_call_def)

lemma dropWhile_replicate_append: "P x \<Longrightarrow> dropWhile P (replicate n x @ ys) = dropWhile P ys"
  by (induction n) simp_all

lemma demo_parse_a [simp]: "demo_parse invoke_a = Inr msg_a"
  by (simp add: demo_parse_def invoke_a_def)

lemma demo_parse_b [simp]: "demo_parse invoke_b = Inr msg_b"
  by (simp add: demo_parse_def invoke_b_def) (simp add: invoke_a_def)

lemma demo_parse_bare_padded [simp]: "demo_parse (invoke_bare @ replicate n (CHR '' '')) = Inr msg_bare"
  by (simp add: demo_parse_def dropWhile_replicate_append) (simp add: invoke_bare_def invoke_a_def invoke_b_def)

lemma demo_parse_bare [simp]: "demo_parse invoke_bare = Inr msg_bare"
  using demo_parse_bare_padded [of 0] by simp

lemma msg_a_fields [simp]:
  "JS_ToCString eng (JS_GetPropertyStr msg_a ''type'') = Some ''invoke''"
  "JS_ToCString eng (JS_GetPropertyStr msg_a ''id'') = Some ''a''"
  "\<not> JS_IsUndefined (JS_GetPropertyStr msg_a ''payload'')"
  by (simp_all add: msg_a_def JS_ToCString_ascii JS_IsUndefined_def)

lemma msg_b_fields [simp]:
  "JS_ToCString eng (JS_GetPropertyStr msg_b ''type'') = Some ''invoke''"
  "JS_ToCString eng (JS_GetPropertyStr msg_b ''id'') = Some ''b''"
  "\<not> JS_IsUndefined (JS_GetPropertyStr msg_b ''payload'')"
  by (simp_all add: msg_b_def JS_ToCString_ascii JS_IsUndefined_def)

lemma msg_bare_fields [simp]:
  "JS_ToCString eng (JS_GetPropertyStr msg_bare ''type'') = Some ''invoke''"
  "JS_ToCString eng (JS_GetPropertyStr msg_bare ''id'') = Some ''undefined''"
  "JS_IsUndefined (JS_GetPropertyStr msg_bare ''payload'')"
  by (simp_all add: msg_bare_def JS_ToCString_ascii JS_IsUndefined_def)

lemma raw_invoke_a [simp]:
  "hd (invoke_a @ [CHR 0x0A]) \<noteq> CHR 0x0A" "chomp (invoke_a @ [CHR 0x0A]) = invoke_a"
  by (simp_all add: invoke_a_def chomp_def)

lemma raw_invoke_b [simp]:
  "hd (invoke_b @ [CHR 0x0A]) \<noteq> CHR 0x0A" "chomp (invoke_b @ [CHR 0x0A]) = invoke_b"
  by (simp_all add: invoke_b_def chomp_def)

lemma raw_padded [simp]:
  "padded n \<noteq> []" "hd (padded n) \<noteq> CHR 0x0A" "chomp (padded n) = invoke_bare @ replicate n (CHR '' '')"
  by (simp_all add: padded_def invoke_bare_def chomp_def butlast_append)

lemma demo_execute_handler:
  "execute_handler demo_engine loaded iid m p h q b =
     (Some 0,
      loaded\<lparr>stdout :=
               [js_bunbase_log demo_engine (take 63 iid) [js_ascii ''info'', js_ascii ''n= 3''],
                send_response iid
                  (response_status demo_engine (JS_GetPropertyStr demo_response ''status''))
                  (response_headers demo_engine (JS_GetPropertyStr demo_response ''headers''))
                  (response_body demo_engine (JS_GetPropertyStr demo_response ''body''))]\<rparr>)"
  using eh_responds [of loaded demo_engine p q h b m "quiet demo_request" "ctx loaded" demo_request
      demo_call "ctx loaded" demo_response "quiet demo_response" "ctx loaded" demo_response iid]
  by (simp add: JS_IsUndefined_def loaded_def)

subsection \<open>C1: one reply per invoke\<close>

lemma execute_handler_returns:
  "fst (execute_handler eng s iid m p h q b) \<noteq> None
     \<longleftrightarrow> JS_IsUndefined (handler_func s) \<or> guest_code_ends eng s (request_code p q h b m)"
  by (simp add: execute_handler_def guest_code_ends_def Let_def split: completion.splits)

lemma missing_payload:
  assumes "raw \<noteq> []" "hd raw \<noteq> CHR 0x0A"
    and "JS_ParseJSON eng (chomp raw) = Inr msg"
    and "JS_ToCString eng (JS_GetPropertyStr msg ''type'') = Some ''invoke''"
    and "JS_IsUndefined (JS_GetPropertyStr msg ''payload'')"
  shows "process_line eng s raw =
           (Returns (), s\<lparr>stdout := stdout s @
              [send_error (or_default (JS_ToCString eng (JS_GetPropertyStr msg ''id'')) ''unknown'')
                 (Some ''Missing payload in invoke message'') (Some ''INVALID_MESSAGE'')]\<rparr>)"
  using assms
  by (simp add: process_line_def Let_def emit_def free_if_set_def JS_FreeCString_def
        split: option.splits)

lemma free_if_set_simps [simp]:
  "free_if_set None r = Some r"
  "free_if_set (Some str) Held = Some Released"
  "free_if_set (Some str) Released = None"
  by (simp_all add: free_if_set_def JS_FreeCString_def)

text \<open>
  The second release of invoke_id. For an invoke record with a payload and an id the
  engine converts to a C string, process_line leaves defined behaviour once
  execute_handler has returned and written its record: lines 913 and 932 both release
  the string. With an id whose conversion fails (NULL) nothing is released.
\<close>

lemma process_line_payload:
  assumes "raw \<noteq> []" "hd raw \<noteq> CHR 0x0A"
    and "JS_ParseJSON eng (chomp raw) = Inr msg"
    and "JS_ToCString eng (JS_GetPropertyStr msg ''type'') = Some ''invoke''"
    and "\<not> JS_IsUndefined (JS_GetPropertyStr msg ''payload'')"
    and "payload_strings eng (JS_GetPropertyStr msg ''payload'') = (m, p, h, q, b)"
    and "iid = or_default (JS_ToCString eng (JS_GetPropertyStr msg ''id'')) ''unknown''"
  shows "process_line eng s raw =
           (case fst (execute_handler eng s iid m p h q b) of
              None \<Rightarrow> Never_returns
            | Some rc \<Rightarrow>
                if JS_ToCString eng (JS_GetPropertyStr msg ''id'') = None then Returns ()
                else Undefined_behaviour,
            snd (execute_handler eng s iid m p h q b))"
  using assms
  by (cases "JS_ToCString eng (JS_GetPropertyStr msg ''id'')")
     (simp_all add: process_line_def Let_def split: prod.splits option.splits)

text \<open>
  An id the engine cannot convert, such as the object \<open>{"toString":1}\<close>: JS_ToCString
  gives NULL, the record written carries "unknown" and no string is released.
\<close>

lemma unconvertible_id:
  "JS_ToCString demo_engine (JS_Object [(''toString'', JS_Int 1)]) = None"
  "or_default (JS_ToCString demo_engine (JS_Object [(''toString'', JS_Int 1)])) ''unknown'' = ''unknown''"
  by (simp_all add: demo_engine_def to_c_string_def or_default_def)

lemma invoke_id_released_twice:
  "process_line demo_engine loaded (invoke_a @ [CHR 0x0A])
     = (Undefined_behaviour, snd (execute_handler demo_engine loaded ''a'' ''GET'' ''/hi'' ''{}'' ''{}'' []))"
proof -
  have stringify: "JS_JSONStringify demo_engine (JS_Object []) = js_ascii ''{}''"
    by (simp add: demo_engine_def)
  have "payload_strings demo_engine (JS_GetPropertyStr msg_a ''payload'') = (''GET'', ''/hi'', ''{}'', ''{}'', [])"
    by (simp add: payload_strings_def msg_a_def Let_def stringify JS_ToCString_ascii)
  from process_line_payload [OF _ raw_invoke_a(1) _ msg_a_fields(1) msg_a_fields(3) this refl, of loaded]
  show ?thesis
    by (simp add: demo_execute_handler)
qed




subsection \<open>C2: every record is one line of JSON\<close>

text \<open>
  C2 fails on the code, by a slip: send_error copies the message into the record as it
  is, where send_log escapes it. A handler that does \<open>throw new Error("x\ny")\<close> makes
  execute_handler call send_error with the message below, and what is written is two
  lines, neither of them a JSON object.
\<close>

theorem send_error_breaks_line:
  "\<not> one_line (e_line (send_error ''a'' (Some (''Error: x'' @ [CHR 0x0A] @ ''y'')) (Some ''HANDLER_ERROR'')))"
  by (simp add: one_line_def send_error_def send_message_def snprintf_def)

subsection \<open>C10: an invoke record without payload\<close>

text \<open>
  C10 fails on the code where the id is absent: the line \<open>{"type":"invoke"}\<close> has no id
  and no payload. JS_GetPropertyStr gives undefined for the id, JS_ToCString turns that
  into the string "undefined", not into NULL, so the fallback "unknown" is not taken
  and the error record carries the id "undefined".
\<close>

theorem missing_payload_absent_id:
  "process_line demo_engine loaded (invoke_bare @ [CHR 0x0A])
   = (Returns (), loaded\<lparr>stdout := [send_error ''undefined'' (Some ''Missing payload in invoke message'')
                                  (Some ''INVALID_MESSAGE'')]\<rparr>)"
proof -
  have "invoke_bare @ [CHR 0x0A] = padded 0"
    by (simp add: padded_def)
  then show ?thesis
    using missing_payload [of "padded 0" demo_engine msg_bare loaded] by simp
qed

subsection \<open>C4: the length of a stdin line\<close>

text \<open>
  C4 fails on the code: MAX_LINE_LENGTH is defined and never used, getline takes a line
  of any length. The line below is a valid record followed by 1 MiB of spaces, longer
  than MAX_LINE_LENGTH. It is not dropped: the worker parses it and answers it on stdout,
  and writes nothing to stderr.
\<close>

theorem long_line_processed:
  "MAX_LINE_LENGTH < length (padded MAX_LINE_LENGTH)
   \<and> process_line demo_engine loaded (padded MAX_LINE_LENGTH)
       = (Returns (), loaded\<lparr>stdout := [send_error ''undefined'' (Some ''Missing payload in invoke message'')
                                      (Some ''INVALID_MESSAGE'')]\<rparr>)"
proof -
  have "MAX_LINE_LENGTH < length (padded MAX_LINE_LENGTH)"
    by (simp add: padded_def)
  moreover have "process_line demo_engine loaded (padded n)
       = (Returns (), loaded\<lparr>stdout := [send_error ''undefined'' (Some ''Missing payload in invoke message'')
                                      (Some ''INVALID_MESSAGE'')]\<rparr>)" for n
    using missing_payload [of "padded n" demo_engine msg_bare loaded] by simp
  ultimately show ?thesis
    by simp
qed

subsection \<open>C9: the id of a log record\<close>

text \<open>
  C9, as the claim states it, fails for an invoke id of 64 bytes: the log record of the
  handler's console.log carries its first 63 bytes.
\<close>

theorem log_id_truncated:
  "e_type (hd (stdout (snd (execute_handler demo_engine loaded long_id ''GET'' ''/'' ''{}'' ''{}'' [])))) = ''log''
   \<and> e_id (hd (stdout (snd (execute_handler demo_engine loaded long_id ''GET'' ''/'' ''{}'' ''{}'' [])))) \<noteq> long_id"
proof -
  have "length (take 63 long_id) \<noteq> length long_id"
    by (simp add: long_id_def)
  then have "take 63 long_id \<noteq> long_id" "take 63 long_id \<noteq> []"
    by (auto simp add: long_id_def)
  then show ?thesis
    by (simp add: demo_execute_handler)
qed

text \<open>
  C9, amended: every log record written while execute_handler runs for an invoke id
  carries the first 63 bytes of that id, and "bundle" when these are empty; every record
  written while the bundle is loaded with no invocation in progress is a log record and
  carries "bundle".
\<close>

theorem log_records_tagged:
  "(\<forall>e \<in> set (emitted_since s (snd (execute_handler eng s iid m p h q b))).
       e_type e = ''log'' \<longrightarrow> e_id e = (if take 63 iid = [] then ''bundle'' else take 63 iid))
   \<and> (current_invoke_id s0 = [] \<longrightarrow>
        (\<forall>e \<in> set (emitted_since s0 (snd (load_bundle eng fopen s0 path))).
           e_type e = ''log'' \<and> e_id e = ''bundle''))"
proof (intro conjI ballI impI)
  fix e
  assume "e \<in> set (emitted_since s (snd (execute_handler eng s iid m p h q b)))"
    and "e_type e = ''log''"
  then show "e_id e = (if take 63 iid = [] then ''bundle'' else take 63 iid)"
    by (rule execute_handler_logs)
next
  fix e
  assume idle: "current_invoke_id s0 = []"
    and e: "e \<in> set (emitted_since s0 (snd (load_bundle eng fopen s0 path)))"
  from load_bundle_logs [OF e] idle show "e_type e = ''log''" by simp
  from load_bundle_logs [OF e] idle show "e_id e = ''bundle''" by simp
qed

theorem log_records_tagged_witness:
  "e_type (hd (stdout (snd (execute_handler demo_engine loaded ''b'' ''GET'' ''/'' ''{}'' ''{}'' [])))) = ''log''
   \<and> e_id (hd (stdout (snd (execute_handler demo_engine loaded ''b'' ''GET'' ''/'' ''{}'' ''{}'' [])))) = ''b''"
proof -
  let ?s = "snd (execute_handler demo_engine loaded ''b'' ''GET'' ''/'' ''{}'' ''{}'' [])"
  have in_out: "hd (stdout ?s) \<in> set (emitted_since loaded ?s)"
    and kind: "e_type (hd (stdout ?s)) = ''log''"
    by (simp_all add: demo_execute_handler emitted_since_def)
  have idle: "current_invoke_id booted = []"
    by simp
  from log_records_tagged [of loaded demo_engine "''b''" "''GET''" "''/''" "''{}''" "''{}''" "[]" booted demo_fopen "''/bundle.js''"]
    in_out kind
  have "e_id (hd (stdout ?s)) = (if take 63 ''b'' = [] then ''bundle'' else take 63 ''b'')"
    by blast
  with kind show ?thesis
    by simp
qed

subsection \<open>C7: a request script that throws\<close>

lemma length_request_code_fmt:
  "length (request_code_fmt u q h b1 b2 m) = 337 + length u + length q + length h + length b1 + length b2 + length m"
  by (simp add: request_code_fmt_def)

lemma request_code_fits:
  assumes "length p < 1024" and "length (request_code_fmt p q h b b m) < 8192"
  shows "request_code p q h b m = request_code_fmt p q h b b m"
  using assms by (simp add: request_code_def snprintf_short)

text \<open>
  C7, as the claim states it, fails for a path of 1024 bytes: the script the dispatcher
  builds is not the one that constructs the URL from the payload's path (full_url holds
  1023 bytes of it).
\<close>

theorem long_path_truncated:
  "request_code long_path ''{}'' ''{}'' [] ''GET'' \<noteq> request_code_fmt long_path ''{}'' ''{}'' [] [] ''GET''"
proof -
  have "length (request_code long_path ''{}'' ''{}'' [] ''GET'') = 337 + 1023 + 2 + 2 + 3"
    by (simp add: request_code_def snprintf_def length_request_code_fmt long_path_def)
  moreover have "length (request_code_fmt long_path ''{}'' ''{}'' [] [] ''GET'') = 337 + 1024 + 2 + 2 + 3"
    by (simp add: length_request_code_fmt long_path_def)
  ultimately have "length (request_code long_path ''{}'' ''{}'' [] ''GET'')
      \<noteq> length (request_code_fmt long_path ''{}'' ''{}'' [] [] ''GET'')"
    by simp
  then show ?thesis
    by auto
qed

lemma single_quoted_plain:
  "list_all (\<lambda>c. c \<notin> set [CHR 0x27, CHR 0x5C, CHR 0x0A, CHR 0x0D]) v
     \<Longrightarrow> single_quoted (v @ CHR 0x27 # rest) = Some (v, rest)"
  by (induction v) simp_all

text \<open>
  The payload's strings are copied between the quotes as they are. A quote in the path
  ends the literal early: of the path below, the script takes "/" for the URL and the
  rest as code.
\<close>

lemma quoted_path_spliced:
  \<open>length quoted_path < 1024
   \<and> single_quoted (quoted_path @ CHR 0x27 # rest) = Some (''/'', '';globalThis.x=1;'' @ [CHR 0x27, CHR 0x27] @ rest)\<close>
  by (simp add: quoted_path_def)

text \<open>
  C7, amended: for every invoke record with a payload whose path is shorter than 1024
  bytes, whose request script fits the 8192 bytes of request_code and whose path, body
  and method have no quote, backslash or line break in them, the script the dispatcher
  has the engine evaluate is the one below, and its string literals read back as the
  path, the body and the method: it constructs a URL from the payload's path against the
  base "http://localhost", sets each query entry with searchParams.set and passes the
  body atob(body) when the base64 string is non-empty, else null. If evaluating it
  throws, the worker does not hang: it writes the log records of the script and then one
  error record with code REQUEST_CREATION_ERROR and the record's id, writes no response,
  does not call the handler and clears current_invoke_id.
\<close>

theorem request_creation_error:
  assumes "\<not> JS_IsUndefined (handler_func s)"
    and "raw \<noteq> []" "hd raw \<noteq> CHR 0x0A"
    and "JS_ParseJSON eng (chomp raw) = Inr msg"
    and "JS_ToCString eng (JS_GetPropertyStr msg ''type'') = Some ''invoke''"
    and "iid = or_default (JS_ToCString eng (JS_GetPropertyStr msg ''id'')) ''unknown''"
    and "\<not> JS_IsUndefined (JS_GetPropertyStr msg ''payload'')"
    and "payload_strings eng (JS_GetPropertyStr msg ''payload'') = (method, path, headers_json, query_json, body)"
    and "length path < 1024"
    and "length (request_code_fmt path query_json headers_json body body method) < 8192"
    and "list_all (\<lambda>c. c \<notin> set [CHR 0x27, CHR 0x5C, CHR 0x0A, CHR 0x0D]) (path @ body @ method)"
    and "JS_Eval eng (ctx s) (request_code path query_json headers_json body method) = (r, c)"
    and "outcome r = Thrown error"
  shows \<open>request_code path query_json headers_json body method =
           ''(function() {  const urlStr = '' @ [CHR 0x27] @ path @ [CHR 0x27]
           @ '';  const url = new URL(urlStr, 'http://localhost');  const query = '' @ query_json
           @ '';  for (const [k, v] of Object.entries(query)) { url.searchParams.set(k, v); }  const headers = ''
           @ headers_json @ '';  const body = '' @ [CHR 0x27] @ body @ [CHR 0x27] @ '' ? atob(''
           @ [CHR 0x27] @ body @ [CHR 0x27]
           @ '') : null;  const req = new Request(url.toString(), { method: '' @ [CHR 0x27] @ method
           @ [CHR 0x27] @ '', headers: headers, body: body });  return req;})()''
         \<and> (\<forall>rest. single_quoted (path @ CHR 0x27 # rest) = Some (path, rest)
                  \<and> single_quoted (body @ CHR 0x27 # rest) = Some (body, rest)
                  \<and> single_quoted (method @ CHR 0x27 # rest) = Some (method, rest))
         \<and> fst (process_line eng s raw) \<noteq> Never_returns
         \<and> snd (process_line eng s raw) =
               s\<lparr>current_invoke_id := [], ctx := c,
                 stdout := stdout s @ map (js_bunbase_log eng (take 63 iid)) (log_calls r)
                             @ [send_error iid error (Some ''REQUEST_CREATION_ERROR'')]\<rparr>\<close>
proof -
  from assms(9,10) have fits: "request_code path query_json headers_json body method
      = request_code_fmt path query_json headers_json body body method"
    by (rule request_code_fits)
  have run: "execute_handler eng s iid method path headers_json query_json body =
           (Some (- 1), s\<lparr>current_invoke_id := [], ctx := c,
                    stdout := stdout s @ map (js_bunbase_log eng (take 63 iid)) (log_calls r)
                                @ [send_error iid error (Some ''REQUEST_CREATION_ERROR'')]\<rparr>)"
    using assms(1,12,13) by (rule eh_request_thrown)
  from process_line_payload [OF assms(2-5) assms(7,8,6), of s] run
  have line: "fst (process_line eng s raw) \<noteq> Never_returns"
    "snd (process_line eng s raw) =
               s\<lparr>current_invoke_id := [], ctx := c,
                 stdout := stdout s @ map (js_bunbase_log eng (take 63 iid)) (log_calls r)
                             @ [send_error iid error (Some ''REQUEST_CREATION_ERROR'')]\<rparr>"
    by simp_all
  from assms(11) have plain:
    "list_all (\<lambda>c. c \<notin> set [CHR 0x27, CHR 0x5C, CHR 0x0A, CHR 0x0D]) path"
    "list_all (\<lambda>c. c \<notin> set [CHR 0x27, CHR 0x5C, CHR 0x0A, CHR 0x0D]) body"
    "list_all (\<lambda>c. c \<notin> set [CHR 0x27, CHR 0x5C, CHR 0x0A, CHR 0x0D]) method"
    by simp_all
  have literals: "single_quoted (path @ CHR 0x27 # rest) = Some (path, rest)
                  \<and> single_quoted (body @ CHR 0x27 # rest) = Some (body, rest)
                  \<and> single_quoted (method @ CHR 0x27 # rest) = Some (method, rest)" for rest
    by (simp only: single_quoted_plain [OF plain(1)] single_quoted_plain [OF plain(2)]
          single_quoted_plain [OF plain(3)] simp_thms)
  from fits line literals show ?thesis
    by (simp add: request_code_fmt_def)
qed

theorem request_creation_error_witness:
  \<open>fst (process_line rejecting_engine loaded (invoke_b @ [CHR 0x0A])) \<noteq> Never_returns
   \<and> snd (process_line rejecting_engine loaded (invoke_b @ [CHR 0x0A])) =
       loaded\<lparr>stdout :=
         [send_error ''b'' (Some ''Error: 'atob' failed: The string to be decoded is not correctly encoded.'')
            (Some ''REQUEST_CREATION_ERROR'')]\<rparr>\<close>
proof -
  have stringify: "JS_JSONStringify rejecting_engine (JS_Object []) = js_ascii ''{}''"
    by (simp add: rejecting_engine_def demo_engine_def)
  have 1: "\<not> JS_IsUndefined (handler_func loaded)"
    by (simp add: JS_IsUndefined_def)
  have 2: "invoke_b @ [CHR 0x0A] \<noteq> []"
    by simp
  have 4: "JS_ParseJSON rejecting_engine (chomp (invoke_b @ [CHR 0x0A])) = Inr msg_b"
    by (simp add: rejecting_engine_def)
  have 6: "''b'' = or_default (JS_ToCString rejecting_engine (JS_GetPropertyStr msg_b ''id'')) ''unknown''"
    by simp
  have 8: "payload_strings rejecting_engine (JS_GetPropertyStr msg_b ''payload'') = (''GET'', ''/hi'', ''{}'', ''{}'', ''a'')"
    by (simp add: payload_strings_def msg_b_def Let_def stringify JS_ToCString_ascii)
  have 9: "length ''/hi'' < 1024"
    by simp
  have 10: "length (request_code_fmt ''/hi'' ''{}'' ''{}'' ''a'' ''a'' ''GET'') < 8192"
    by (simp add: length_request_code_fmt)
  have 11: "list_all (\<lambda>c. c \<notin> set [CHR 0x27, CHR 0x5C, CHR 0x0A, CHR 0x0D]) (''/hi'' @ ''a'' @ ''GET'')"
    by simp
  have 12: "JS_Eval rejecting_engine (ctx loaded) (request_code ''/hi'' ''{}'' ''{}'' ''a'' ''GET'') = (atob_failed, ctx loaded)"
    by (simp add: rejecting_engine_def)
  have 13: \<open>outcome atob_failed = Thrown (Some ''Error: 'atob' failed: The string to be decoded is not correctly encoded.'')\<close>
    by (simp add: atob_failed_def)
  from request_creation_error [OF 1 2 raw_invoke_b(1) 4 msg_b_fields(1) 6 msg_b_fields(3) 8 9 10 11 12 13]
  show ?thesis
    by (simp add: atob_failed_def loaded_def)
qed

subsection \<open>C6: which export becomes the handler\<close>

lemma load_bundle_run:
  assumes "fopen path = Some code" and "length code \<le> MAX_BUNDLE_SIZE"
    and "JS_Eval_compile eng code path = Inr mf"
    and "JS_ResolveModule eng mf = None"
    and "js_module_set_import_meta eng mf = None"
    and "\<not> JS_VALUE_GET_PTR_null eng mf"
  shows "load_bundle eng fopen s path = run_module eng s mf"
  using assms by (simp add: load_bundle_def)

lemma run_module_retain:
  assumes "JS_EvalFunction eng (ctx s) mf = (r1, c1)" and "outcome r1 = Returned v1"
    and "js_std_await eng c1 v1 = (r2, c2)" and "outcome r2 = Returned v2"
  shows "run_module eng s mf =
           retain_handler eng
             (s\<lparr>ctx := c2,
                stdout := stdout s @ map (js_bunbase_log eng (current_invoke_id s)) (log_calls r1 @ log_calls r2)\<rparr>)
             mf"
  using assms by (simp add: run_module_def Let_def guest_logs_def)

text \<open>
  C6: once the bundle's module has been compiled, linked, executed and awaited, and has
  the namespace \<open>ns\<close>, whatever that is: load_bundle retains \<open>ns.default\<close> as the handler
  and returns 0 if it is callable; otherwise it retains \<open>ns.handler\<close> and returns 0 if
  that is callable; otherwise it returns -1, and main writes the error record with id
  "bundle-load" and code BUNDLE_LOAD_ERROR and exits with status 1.
\<close>

theorem handler_selection:
  assumes "fopen path = Some code" and "length code \<le> MAX_BUNDLE_SIZE"
    and "JS_Eval_compile eng code path = Inr mf"
    and "JS_ResolveModule eng mf = None"
    and "js_module_set_import_meta eng mf = None"
    and "\<not> JS_VALUE_GET_PTR_null eng mf"
    and "JS_EvalFunction eng (ctx s) mf = (r1, c1)" and "outcome r1 = Returned v1"
    and "js_std_await eng c1 v1 = (r2, c2)" and "outcome r2 = Returned v2"
    and "JS_GetModuleNamespace eng c2 mf = Inr ns"
    and "s2 = s\<lparr>ctx := c2,
                 stdout := stdout s @ map (js_bunbase_log eng (current_invoke_id s)) (log_calls r1 @ log_calls r2)\<rparr>"
  shows \<open>(JS_IsFunction (JS_GetPropertyStr ns ''default'') \<longrightarrow>
            load_bundle eng fopen s path = (Some 0, s2\<lparr>handler_func := JS_GetPropertyStr ns ''default''\<rparr>))
         \<and> (\<not> JS_IsFunction (JS_GetPropertyStr ns ''default'') \<and> JS_IsFunction (JS_GetPropertyStr ns ''handler'') \<longrightarrow>
            load_bundle eng fopen s path = (Some 0, s2\<lparr>handler_func := JS_GetPropertyStr ns ''handler''\<rparr>))
         \<and> (\<not> JS_IsFunction (JS_GetPropertyStr ns ''default'') \<and> \<not> JS_IsFunction (JS_GetPropertyStr ns ''handler'') \<longrightarrow>
            fst (load_bundle eng fopen s path) = Some (- 1)
            \<and> handler_func (snd (load_bundle eng fopen s path)) = handler_func s
            \<and> serve eng fopen path worker_id stdin s =
                (Returns 1,
                 stdout s2 @ [send_error ''bundle-load'' (Some ''Failed to load bundle'') (Some ''BUNDLE_LOAD_ERROR'')],
                 stderr s2 @ [''[ERROR] No handler function found (expected default export or 'handler')'' @ [CHR 0x0A]]))\<close>
proof -
  have "load_bundle eng fopen s path = retain_handler eng s2 mf"
    using assms(1-10) by (simp add: load_bundle_run run_module_retain assms(12))
  moreover have "ctx s2 = c2" "handler_func s2 = handler_func s"
    by (simp_all add: assms(12))
  ultimately show ?thesis
    using assms(11) by (simp add: retain_handler_def Let_def serve_def)
qed

theorem handler_selection_witness:
  \<open>load_bundle demo_engine demo_fopen booted ''/bundle.js'' = (Some 0, booted\<lparr>handler_func := JS_Function ''handler''\<rparr>)
   \<and> serve no_handler_engine demo_fopen ''/bundle.js'' ''worker-1'' [] booted =
        (Returns 1, [send_error ''bundle-load'' (Some ''Failed to load bundle'') (Some ''BUNDLE_LOAD_ERROR'')],
         [''[ERROR] No handler function found (expected default export or 'handler')'' @ [CHR 0x0A]])\<close>
proof -
  have code: "demo_fopen ''/bundle.js'' = Some ''export default () => Response.text(typeof eval);''"
    by (simp add: demo_fopen_def)
  have size: "length ''export default () => Response.text(typeof eval);'' \<le> MAX_BUNDLE_SIZE"
    by (simp add: MAX_BUNDLE_SIZE_def)
  have s2: "booted = booted\<lparr>ctx := ctx booted,
              stdout := stdout booted @ map (js_bunbase_log e (current_invoke_id booted))
                          (log_calls (quiet JS_UNDEFINED) @ log_calls (quiet JS_UNDEFINED))\<rparr>" for e
    by (simp add: booted_def)
  have "load_bundle demo_engine demo_fopen booted ''/bundle.js'' = (Some 0, booted\<lparr>handler_func := JS_Function ''handler''\<rparr>)"
    using handler_selection [of demo_fopen "''/bundle.js''" _ demo_engine "JS_Object []" booted
        "quiet JS_UNDEFINED" "ctx booted" JS_UNDEFINED "quiet JS_UNDEFINED" "ctx booted" JS_UNDEFINED
        demo_namespace booted, OF code size _ _ _ _ _ _ _ _ _ s2]
    by (simp add: demo_engine_def demo_namespace_def)
  moreover have "serve no_handler_engine demo_fopen ''/bundle.js'' ''worker-1'' [] booted =
        (Returns 1, [send_error ''bundle-load'' (Some ''Failed to load bundle'') (Some ''BUNDLE_LOAD_ERROR'')],
         [''[ERROR] No handler function found (expected default export or 'handler')'' @ [CHR 0x0A]])"
    using handler_selection [of demo_fopen "''/bundle.js''" _ no_handler_engine "JS_Object []" booted
        "quiet JS_UNDEFINED" "ctx booted" JS_UNDEFINED "quiet JS_UNDEFINED" "ctx booted" JS_UNDEFINED
        "JS_Object [(''default'', JS_Int 1)]" booted "''worker-1''" "[]", OF code size _ _ _ _ _ _ _ _ _ s2]
    by (simp add: no_handler_engine_def demo_engine_def)
  ultimately show ?thesis
    by simp
qed

subsection \<open>The encoder of execute_handler against RFC 4648\<close>

lemma base_div:
  fixes x n q r :: nat
  assumes "x = n * q + r" and "r < n"
  shows "x div n = q" and "x mod n = r"
  using assms by simp_all

lemma sextets_split:
  fixes A a0 B b0 C c0 :: nat
  assumes "A < 64" "a0 < 4" "B < 16" "b0 < 16" "C < 4" "c0 < 64"
  defines "x \<equiv> (4 * A + a0) * 65536 + (16 * B + b0) * 256 + (64 * C + c0)"
  shows "x div 262144 mod 64 = A"
    and "x div 4096 mod 64 = a0 * 16 + B"
    and "x div 64 mod 64 = b0 * 4 + C"
    and "x mod 64 = c0"
proof -
  have "x div 262144 = A"
    by (rule base_div(1) [where r = "a0 * 65536 + (16 * B + b0) * 256 + (64 * C + c0)"])
       (use assms in \<open>simp_all add: x_def\<close>)
  with assms(1) show "x div 262144 mod 64 = A" by simp
  have "x div 4096 = 64 * A + (a0 * 16 + B)"
    by (rule base_div(1) [where r = "b0 * 256 + (64 * C + c0)"])
       (use assms in \<open>simp_all add: x_def\<close>)
  moreover have "(64 * A + (a0 * 16 + B)) mod 64 = a0 * 16 + B"
    by (rule base_div(2) [OF refl]) (use assms in linarith)
  ultimately show "x div 4096 mod 64 = a0 * 16 + B" by simp
  have "x div 64 = 64 * ((4 * A + a0) * 16 + B) + (b0 * 4 + C)"
    by (rule base_div(1) [where r = c0])
       (use assms in \<open>simp_all add: x_def\<close>)
  moreover have "(64 * ((4 * A + a0) * 16 + B) + (b0 * 4 + C)) mod 64 = b0 * 4 + C"
    by (rule base_div(2) [OF refl]) (use assms in linarith)
  ultimately show "x div 64 mod 64 = b0 * 4 + C" by simp
  show "x mod 64 = c0"
    by (rule base_div(2) [where q = "(4 * A + a0) * 1024 + (16 * B + b0) * 4 + C"])
       (use assms in \<open>simp_all add: x_def\<close>)
qed

lemma sextets:
  fixes a b c :: nat
  assumes "a < 256" "b < 256" "c < 256"
  shows "(a * 65536 + b * 256 + c) div 262144 mod 64 = a div 4"
    and "(a * 65536 + b * 256 + c) div 4096 mod 64 = a mod 4 * 16 + b div 16"
    and "(a * 65536 + b * 256 + c) div 64 mod 64 = b mod 16 * 4 + c div 64"
    and "(a * 65536 + b * 256 + c) mod 64 = c mod 64"
proof -
  have bounds: "a div 4 < 64" "a mod 4 < 4" "b div 16 < 16" "b mod 16 < 16" "c div 64 < 4" "c mod 64 < 64"
    using assms by simp_all
  from sextets_split [OF bounds] show
    "(a * 65536 + b * 256 + c) div 262144 mod 64 = a div 4"
    "(a * 65536 + b * 256 + c) div 4096 mod 64 = a mod 4 * 16 + b div 16"
    "(a * 65536 + b * 256 + c) div 64 mod 64 = b mod 16 * 4 + c div 64"
    "(a * 65536 + b * 256 + c) mod 64 = c mod 64"
    by simp_all
qed

lemma sextets_char:
  "(of_char x * 65536 + of_char y * 256 + of_char z) div 262144 mod 64 = (of_char x :: nat) div 4"
  "(of_char x * 65536 + of_char y * 256 + of_char z) div 4096 mod 64 = (of_char x :: nat) mod 4 * 16 + of_char y div 16"
  "(of_char x * 65536 + of_char y * 256 + of_char z) div 64 mod 64 = (of_char y :: nat) mod 16 * 4 + of_char z div 64"
  "(of_char x * 65536 + of_char y * 256 + of_char z) mod 64 = (of_char z :: nat) mod 64"
  by (rule sextets; simp)+

lemma sextets_char2:
  "(of_char x * 65536 + of_char y * 256) div 262144 mod 64 = (of_char x :: nat) div 4"
  "(of_char x * 65536 + of_char y * 256) div 4096 mod 64 = (of_char x :: nat) mod 4 * 16 + of_char y div 16"
  "(of_char x * 65536 + of_char y * 256) div 64 mod 64 = (of_char y :: nat) mod 16 * 4"
  using sextets [of "of_char x" "of_char y" 0] by simp_all

lemma sextets_char1:
  "(of_char x * 65536) div 262144 mod 64 = (of_char x :: nat) div 4"
  "(of_char x * 65536) div 4096 mod 64 = (of_char x :: nat) mod 4 * 16"
  using sextets [of "of_char x" 0 0] by simp_all

text \<open>
  The loop encodes as RFC 4648 says, up to the point where the write index reaches
  16380: from index 0 that is the first 12285 bytes of the body.
\<close>

lemma quads:
  assumes "j mod 4 = 0" "j < 16380"
  shows "(j + 4) mod 4 = 0" "j + 4 \<le> 16380" "(16380 - j) div 4 = Suc ((16380 - (j + 4)) div 4)"
proof -
  from assms(1) have "4 dvd j"
    by (rule mod_0_imp_dvd)
  then obtain q where q: "j = 4 * q"
    by (rule dvdE)
  with assms(2) have "q < 4095" by simp
  then have "16380 - j = 4 * (4095 - q)" "16380 - (j + 4) = 4 * (4094 - q)" "4095 - q = Suc (4094 - q)"
    using q by simp_all
  then show "(16380 - j) div 4 = Suc ((16380 - (j + 4)) div 4)"
    by simp
  from q \<open>q < 4095\<close> show "(j + 4) mod 4 = 0" "j + 4 \<le> 16380"
    by simp_all
qed

lemma take3: "take (3 + n) (x # y # z # rest) = x # y # z # take n rest"
  by (simp add: numeral_3_eq_3)

lemma take3_short: "take (3 + n) [x, y] = [x, y]" "take (3 + n) [x] = [x]"
  by (simp_all add: numeral_3_eq_3)

lemma sextets_char2_third:
  "(1024 * of_char x + 4 * of_char y) mod 64 = (of_char y :: nat) mod 16 * 4"
  using sextets_char2(3) [of x y] by simp

lemma sextets_char1_normal:
  "(of_char x :: nat) div 4 mod 64 = of_char x div 4"
  "16 * (of_char x :: nat) mod 64 = of_char x mod 4 * 16"
  using sextets_char1 [of x] by simp_all

lemma base64_loop_standard:
  "j mod 4 = 0 \<Longrightarrow> j \<le> 16380 \<Longrightarrow>
     base64_loop j body = standard_base64 (take (3 * ((16380 - j) div 4)) body)"
proof (induction j body rule: base64_loop.induct)
  case (1 j x y z rest)
  show ?case
  proof (cases "j < 16380")
    case True
    note q = quads [OF "1.prems"(1) True]
    from "1.IH" [OF _ q(1) q(2)] True
    have "base64_loop (j + 4) rest = standard_base64 (take (3 * ((16380 - (j + 4)) div 4)) rest)"
      by simp
    with True q(3) show ?thesis
      by (simp add: take3 sextets_char base64_chars_def standard_alphabet_def)
  next
    case False
    with 1 have "j = 16380" by simp
    then show ?thesis by simp
  qed
next
  case (2 j x y)
  show ?case
  proof (cases "j < 16380")
    case True
    note q = quads [OF "2.prems"(1) True]
    from True q(3) show ?thesis
      by (simp add: take3_short sextets_char2 sextets_char2_third base64_chars_def standard_alphabet_def)
  next
    case False
    with 2 have "j = 16380" by simp
    then show ?thesis by simp
  qed
next
  case (3 j x)
  show ?case
  proof (cases "j < 16380")
    case True
    note q = quads [OF "3.prems"(1) True]
    from True q(3) show ?thesis
      by (simp add: take3_short sextets_char1 sextets_char1_normal base64_chars_def standard_alphabet_def)
  next
    case False
    with 3 have "j = 16380" by simp
    then show ?thesis by simp
  qed
next
  case (4 j)
  show ?case by simp
qed

lemma div3_step: "(5 + n) div 3 = Suc (Suc (Suc n) div (3::nat))"
proof -
  have "(3 + (2 + n)) div 3 = (2 + n) div 3 + 1"
    by (rule div_add_self1) simp
  moreover have "3 + (2 + n) = 5 + n" "2 + n = Suc (Suc n)"
    by linarith+
  ultimately show ?thesis
    by (simp only: Suc_eq_plus1)
qed

lemma length_standard_base64: "length (standard_base64 body) = 4 * ((length body + 2) div 3)"
proof (induction body rule: standard_base64.induct)
  case (1 x y z rest)
  then show ?case by (simp add: div3_step)
qed simp_all

lemma response_body_ascii:
  assumes "list_all (\<lambda>c. of_char c < (128::nat)) body" and "list_all (\<lambda>c. c \<noteq> CHR 0x00) body"
  shows "response_body eng (js_ascii body) = standard_base64 (take 12285 body)"
proof -
  have "base64_loop 0 body = standard_base64 (take (3 * ((16380 - 0) div 4)) body)"
    by (rule base64_loop_standard) simp_all
  then have "base64_loop 0 body = standard_base64 (take 12285 body)"
    by simp
  with JS_ToCString_ascii [OF assms] show ?thesis
    by (simp add: response_body_def js_ascii_def JS_IsUndefined_def JS_IsNull_def)
qed

subsection \<open>C8: status, headers and body of the response\<close>

text \<open>
  C8 fails on the code where the body is long: the handler of \<open>long_body_engine\<close>
  returns a response whose body is 12286 letters "a". The record written carries the
  base64 encoding of its first 12285 bytes only, 16380 characters, which is not the
  base64 encoding of the body (16384 characters): the encoding loop stops when the
  write index reaches the end of encoded_body[16384].
\<close>

theorem long_body_truncated:
  "stdout (snd (execute_handler long_body_engine loaded ''a'' ''GET'' ''/'' ''{}'' ''{}'' []))
     = [send_response ''a'' 200 (Some ''{}'') (standard_base64 (take 12285 long_body))]
   \<and> length (standard_base64 (take 12285 long_body)) = 16380
   \<and> length (standard_base64 long_body) = 16384"
proof -
  have ascii: "list_all (\<lambda>c. of_char c < (128::nat)) long_body" "list_all (\<lambda>c. c \<noteq> CHR 0x00) long_body"
    by (simp_all add: long_body_def list_all_iff)
  have fields: "JS_GetPropertyStr long_response ''status'' = JS_Int 200"
    "JS_GetPropertyStr long_response ''headers'' = JS_UNDEFINED"
    "JS_GetPropertyStr long_response ''body'' = js_ascii long_body"
    by (simp_all add: long_response_def)
  have "execute_handler long_body_engine loaded ''a'' ''GET'' ''/'' ''{}'' ''{}'' [] =
     (Some 0,
      loaded\<lparr>stdout :=
               [send_response ''a''
                  (response_status long_body_engine (JS_GetPropertyStr long_response ''status''))
                  (response_headers long_body_engine (JS_GetPropertyStr long_response ''headers''))
                  (response_body long_body_engine (JS_GetPropertyStr long_response ''body''))]\<rparr>)"
    using eh_responds [of loaded long_body_engine "''/''" "''{}''" "''{}''" "[]" "''GET''"
        "quiet demo_request" "ctx loaded" demo_request
        "quiet long_response" "ctx loaded" long_response "quiet long_response" "ctx loaded" long_response "''a''"]
    by (simp add: JS_IsUndefined_def loaded_def long_body_engine_def demo_engine_def)
  moreover have "response_status long_body_engine (JS_Int 200) = 200"
    by (simp add: response_status_def JS_IsUndefined_def long_body_engine_def demo_engine_def)
  moreover have "response_headers long_body_engine JS_UNDEFINED = Some ''{}''"
    by (simp add: response_headers_def JS_IsUndefined_def)
  ultimately have "stdout (snd (execute_handler long_body_engine loaded ''a'' ''GET'' ''/'' ''{}'' ''{}'' []))
     = [send_response ''a'' 200 (Some ''{}'') (standard_base64 (take 12285 long_body))]"
    by (simp add: fields response_body_ascii [OF ascii])
  moreover have "length (standard_base64 (take 12285 long_body)) = 16380"
    "length (standard_base64 long_body) = 16384"
    by (simp_all add: length_standard_base64 long_body_def)
  ultimately show ?thesis
    by simp
qed

subsection \<open>The decoder of the atob polyfill against RFC 4648\<close>

lemma alphabet_table:
  "list_all (\<lambda>i. indexOf atob_chars (standard_alphabet ! i) = Some i
                  \<and> standard_alphabet ! i \<notin> set [CHR ''='', CHR 0x22, CHR 0x5C, CHR 0x0A, CHR 0x0D, CHR 0x00, CHR 0x27])
     [0..<64]"
  by code_simp

lemma alphabet_index: "i < 64 \<Longrightarrow> indexOf atob_chars (standard_alphabet ! i) = Some i"
  using alphabet_table by (simp add: list_all_iff)

lemma alphabet_plain:
  "i < 64 \<Longrightarrow> standard_alphabet ! i \<notin> set [CHR ''='', CHR 0x22, CHR 0x5C, CHR 0x0A, CHR 0x0D, CHR 0x00, CHR 0x27]"
  using alphabet_table by (simp add: list_all_iff)

lemma decode_split:
  fixes A a0 B b0 C c0 :: nat
  assumes "A < 64" "a0 < 4" "B < 16" "b0 < 16" "C < 4" "c0 < 64"
  shows "(A * 64 + (a0 * 16 + B)) div 16 mod 256 = 4 * A + a0"
    and "((A * 64 + (a0 * 16 + B)) * 64 + (b0 * 4 + C)) div 4 mod 256 = 16 * B + b0"
    and "(((A * 64 + (a0 * 16 + B)) * 64 + (b0 * 4 + C)) * 64 + c0) mod 256 = 64 * C + c0"
proof -
  have "(A * 64 + (a0 * 16 + B)) div 16 = 4 * A + a0"
    by (rule base_div(1) [where r = B]) (use assms in simp_all)
  moreover have "4 * A + a0 < 256"
    using assms by linarith
  ultimately show "(A * 64 + (a0 * 16 + B)) div 16 mod 256 = 4 * A + a0"
    by simp
  have "((A * 64 + (a0 * 16 + B)) * 64 + (b0 * 4 + C)) div 4 = 256 * (4 * A + a0) + (16 * B + b0)"
    by (rule base_div(1) [where r = C]) (use assms in simp_all)
  moreover have "(256 * (4 * A + a0) + (16 * B + b0)) mod 256 = 16 * B + b0"
    by (rule base_div(2) [OF refl]) (use assms in linarith)
  ultimately show "((A * 64 + (a0 * 16 + B)) * 64 + (b0 * 4 + C)) div 4 mod 256 = 16 * B + b0"
    by simp
  show "(((A * 64 + (a0 * 16 + B)) * 64 + (b0 * 4 + C)) * 64 + c0) mod 256 = 64 * C + c0"
    by (rule base_div(2) [where q = "(A * 64 + (a0 * 16 + B)) * 16 + b0"]) (use assms in simp_all)
qed

lemma decode:
  fixes a b c :: nat
  assumes "a < 256" "b < 256" "c < 256"
  shows "(a div 4 * 64 + (a mod 4 * 16 + b div 16)) div 16 mod 256 = a"
    and "((a div 4 * 64 + (a mod 4 * 16 + b div 16)) * 64 + (b mod 16 * 4 + c div 64)) div 4 mod 256 = b"
    and "(((a div 4 * 64 + (a mod 4 * 16 + b div 16)) * 64 + (b mod 16 * 4 + c div 64)) * 64 + c mod 64) mod 256 = c"
proof -
  have bounds: "a div 4 < 64" "a mod 4 < 4" "b div 16 < 16" "b mod 16 < 16" "c div 64 < 4" "c mod 64 < 64"
    using assms by simp_all
  have e: "4 * (a div 4) + a mod 4 = a" "16 * (b div 16) + b mod 16 = b" "64 * (c div 64) + c mod 64 = c"
    by simp_all
  show "(a div 4 * 64 + (a mod 4 * 16 + b div 16)) div 16 mod 256 = a"
    using decode_split(1) [OF bounds] by (simp only: e)
  show "((a div 4 * 64 + (a mod 4 * 16 + b div 16)) * 64 + (b mod 16 * 4 + c div 64)) div 4 mod 256 = b"
    using decode_split(2) [OF bounds] by (simp only: e)
  show "(((a div 4 * 64 + (a mod 4 * 16 + b div 16)) * 64 + (b mod 16 * 4 + c div 64)) * 64 + c mod 64) mod 256 = c"
    using decode_split(3) [OF bounds] by (simp only: e)
qed

lemma sextet_bounds:
  "(of_char x :: nat) div 4 < 64"
  "(of_char x :: nat) mod 4 * 16 + of_char y div 16 < 64"
  "(of_char y :: nat) mod 16 * 4 + of_char z div 64 < 64"
  "(of_char z :: nat) mod 64 < 64"
  "(of_char x :: nat) mod 4 * 16 < 64"
  "(of_char y :: nat) mod 16 * 4 < 64"
proof -
  have "(of_char x :: nat) < 64 * 4" "(of_char y :: nat) < 16 * 16" "(of_char z :: nat) < 4 * 64"
    by simp_all
  then have d: "(of_char x :: nat) div 4 < 64" "(of_char y :: nat) div 16 < 16" "(of_char z :: nat) div 64 < 4"
    by (simp_all only: div_less_iff_less_mult zero_less_numeral)
  have m: "(of_char x :: nat) mod 4 < 4" "(of_char y :: nat) mod 16 < 16" "(of_char z :: nat) mod 64 < 64"
    by simp_all
  from d show "(of_char x :: nat) div 4 < 64" by simp
  from d m show "(of_char x :: nat) mod 4 * 16 + of_char y div 16 < 64" by linarith
  from d m show "(of_char y :: nat) mod 16 * 4 + of_char z div 64 < 64" by linarith
  from m show "(of_char z :: nat) mod 64 < 64" by simp
  from m show "(of_char x :: nat) mod 4 * 16 < 64" by linarith
  from m show "(of_char y :: nat) mod 16 * 4 < 64" by linarith
qed

lemma atob_step:
  assumes "indexOf atob_chars ch = Some i"
  shows "bc mod 4 = 0 \<Longrightarrow> atob_loop bc bs (ch # rest) = atob_loop (Suc bc) i rest"
    and "bc mod 4 = 1 \<Longrightarrow> atob_loop bc bs (ch # rest)
           = ((bs * 64 + i) div 16 mod 256) # atob_loop (Suc bc) (bs * 64 + i) rest"
    and "bc mod 4 = 2 \<Longrightarrow> atob_loop bc bs (ch # rest)
           = ((bs * 64 + i) div 4 mod 256) # atob_loop (Suc bc) (bs * 64 + i) rest"
    and "bc mod 4 = 3 \<Longrightarrow> atob_loop bc bs (ch # rest)
           = ((bs * 64 + i) mod 256) # atob_loop (Suc bc) (bs * 64 + i) rest"
  using assms by (simp_all add: atob_shift_def mod_Suc)

lemma mod4_next:
  "bc mod 4 = 0 \<Longrightarrow> Suc bc mod 4 = 1"
  "bc mod 4 = 1 \<Longrightarrow> Suc bc mod 4 = 2"
  "bc mod 4 = 2 \<Longrightarrow> Suc bc mod 4 = 3"
  "bc mod 4 = 3 \<Longrightarrow> Suc bc mod 4 = 0"
  by (simp_all add: mod_Suc)

lemma decode_char:
  "((of_char x :: nat) div 4 * 64 + (of_char x mod 4 * 16 + of_char y div 16)) div 16 mod 256 = of_char x"
  "(((of_char x :: nat) div 4 * 64 + (of_char x mod 4 * 16 + of_char y div 16)) * 64
      + (of_char y mod 16 * 4 + of_char z div 64)) div 4 mod 256 = of_char y"
  "((((of_char x :: nat) div 4 * 64 + (of_char x mod 4 * 16 + of_char y div 16)) * 64
      + (of_char y mod 16 * 4 + of_char z div 64)) * 64 + of_char z mod 64) mod 256 = of_char z"
proof -
  have b: "(of_char x :: nat) < 256" "(of_char y :: nat) < 256" "(of_char z :: nat) < 256"
    by simp_all
  show "((of_char x :: nat) div 4 * 64 + (of_char x mod 4 * 16 + of_char y div 16)) div 16 mod 256 = of_char x"
    by (rule decode(1) [OF b])
  show "(((of_char x :: nat) div 4 * 64 + (of_char x mod 4 * 16 + of_char y div 16)) * 64
      + (of_char y mod 16 * 4 + of_char z div 64)) div 4 mod 256 = of_char y"
    by (rule decode(2) [OF b])
  show "((((of_char x :: nat) div 4 * 64 + (of_char x mod 4 * 16 + of_char y div 16)) * 64
      + (of_char y mod 16 * 4 + of_char z div 64)) * 64 + of_char z mod 64) mod 256 = of_char z"
    by (rule decode(3) [OF b])
qed

lemma decode_char2:
  "(((of_char x :: nat) div 4 * 64 + (of_char x mod 4 * 16 + of_char y div 16)) * 64
      + of_char y mod 16 * 4) div 4 mod 256 = of_char y"
  using decode(2) [of "of_char x" "of_char y" 0] by simp

lemma decode_char1:
  "((of_char x :: nat) div 4 * 64 + of_char x mod 4 * 16) div 16 mod 256 = of_char x"
  using decode(1) [of "of_char x" 0 0] by simp

lemma atob_loop_unpadded:
  "bc mod 4 = 0 \<Longrightarrow> atob_loop bc bs (standard_unpadded b) = map of_char b"
proof (induction b arbitrary: bc bs rule: standard_unpadded.induct)
  case (1 x y z rest)
  let ?s0 = "(of_char x :: nat) div 4"
  let ?s1 = "(of_char x :: nat) mod 4 * 16 + of_char y div 16"
  let ?s2 = "(of_char y :: nat) mod 16 * 4 + of_char z div 64"
  let ?s3 = "(of_char z :: nat) mod 64"
  let ?q1 = "standard_alphabet ! ?s1" and ?q2 = "standard_alphabet ! ?s2" and ?q3 = "standard_alphabet ! ?s3"
  let ?tail = "standard_unpadded rest"
  note m0 = "1.prems"
  note m1 = mod4_next(1) [OF m0]
  note m2 = mod4_next(2) [OF m1]
  note m3 = mod4_next(3) [OF m2]
  note m4 = mod4_next(4) [OF m3]
  have "atob_loop bc bs (standard_unpadded (x # y # z # rest))
          = atob_loop bc bs (standard_alphabet ! ?s0 # ?q1 # ?q2 # ?q3 # ?tail)"
    by simp
  also have "\<dots> = atob_loop (Suc bc) ?s0 (?q1 # ?q2 # ?q3 # ?tail)"
    by (rule atob_step(1) [OF alphabet_index [OF sextet_bounds(1)] m0])
  also have "\<dots> = ((?s0 * 64 + ?s1) div 16 mod 256)
                    # atob_loop (Suc (Suc bc)) (?s0 * 64 + ?s1) (?q2 # ?q3 # ?tail)"
    by (rule atob_step(2) [OF alphabet_index [OF sextet_bounds(2)] m1])
  also have "atob_loop (Suc (Suc bc)) (?s0 * 64 + ?s1) (?q2 # ?q3 # ?tail)
               = (((?s0 * 64 + ?s1) * 64 + ?s2) div 4 mod 256)
                    # atob_loop (Suc (Suc (Suc bc))) ((?s0 * 64 + ?s1) * 64 + ?s2) (?q3 # ?tail)"
    by (rule atob_step(3) [OF alphabet_index [OF sextet_bounds(3)] m2])
  also have "atob_loop (Suc (Suc (Suc bc))) ((?s0 * 64 + ?s1) * 64 + ?s2) (?q3 # ?tail)
               = ((((?s0 * 64 + ?s1) * 64 + ?s2) * 64 + ?s3) mod 256)
                    # atob_loop (Suc (Suc (Suc (Suc bc)))) (((?s0 * 64 + ?s1) * 64 + ?s2) * 64 + ?s3) ?tail"
    by (rule atob_step(4) [OF alphabet_index [OF sextet_bounds(4)] m3])
  also have "atob_loop (Suc (Suc (Suc (Suc bc)))) (((?s0 * 64 + ?s1) * 64 + ?s2) * 64 + ?s3) ?tail
               = map of_char rest"
    by (rule "1.IH" [OF m4])
  finally show ?case
    by (simp only: decode_char list.map)
next
  case (2 x y)
  let ?s0 = "(of_char x :: nat) div 4"
  let ?s1 = "(of_char x :: nat) mod 4 * 16 + of_char y div 16"
  let ?s2 = "(of_char y :: nat) mod 16 * 4"
  let ?q1 = "standard_alphabet ! ?s1" and ?q2 = "standard_alphabet ! ?s2"
  note m0 = "2.prems"
  note m1 = mod4_next(1) [OF m0]
  note m2 = mod4_next(2) [OF m1]
  have "atob_loop bc bs (standard_unpadded [x, y])
          = atob_loop bc bs (standard_alphabet ! ?s0 # ?q1 # ?q2 # [])"
    by simp
  also have "\<dots> = atob_loop (Suc bc) ?s0 (?q1 # ?q2 # [])"
    by (rule atob_step(1) [OF alphabet_index [OF sextet_bounds(1)] m0])
  also have "\<dots> = ((?s0 * 64 + ?s1) div 16 mod 256)
                    # atob_loop (Suc (Suc bc)) (?s0 * 64 + ?s1) (?q2 # [])"
    by (rule atob_step(2) [OF alphabet_index [OF sextet_bounds(2)] m1])
  also have "atob_loop (Suc (Suc bc)) (?s0 * 64 + ?s1) (?q2 # [])
               = (((?s0 * 64 + ?s1) * 64 + ?s2) div 4 mod 256)
                    # atob_loop (Suc (Suc (Suc bc))) ((?s0 * 64 + ?s1) * 64 + ?s2) []"
    by (rule atob_step(3) [OF alphabet_index [OF sextet_bounds(6)] m2])
  finally show ?case
    by (simp only: decode_char(1) decode_char2 list.map atob_loop.simps(1))
next
  case (3 x)
  let ?s0 = "(of_char x :: nat) div 4"
  let ?s1 = "(of_char x :: nat) mod 4 * 16"
  let ?q1 = "standard_alphabet ! ?s1"
  note m0 = "3.prems"
  note m1 = mod4_next(1) [OF m0]
  have "atob_loop bc bs (standard_unpadded [x])
          = atob_loop bc bs (standard_alphabet ! ?s0 # ?q1 # [])"
    by simp
  also have "\<dots> = atob_loop (Suc bc) ?s0 (?q1 # [])"
    by (rule atob_step(1) [OF alphabet_index [OF sextet_bounds(1)] m0])
  also have "\<dots> = ((?s0 * 64 + ?s1) div 16 mod 256)
                    # atob_loop (Suc (Suc bc)) (?s0 * 64 + ?s1) []"
    by (rule atob_step(2) [OF alphabet_index [OF sextet_bounds(5)] m1])
  finally show ?case
    by (simp only: decode_char1 list.map atob_loop.simps(1))
next
  case 4
  show ?case by simp
qed

lemma strip_padding_append:
  assumes "list_all (\<lambda>c. c \<noteq> CHR ''='') xs"
  shows "strip_padding (xs @ ys) = xs @ strip_padding ys"
proof (cases "\<forall>c \<in> set ys. c = CHR ''=''")
  case True
  then have "dropWhile (\<lambda>c. c = CHR ''='') (rev ys @ rev xs) = dropWhile (\<lambda>c. c = CHR ''='') (rev xs)"
    by (simp add: dropWhile_append)
  moreover from assms have "dropWhile (\<lambda>c. c = CHR ''='') (rev xs) = rev xs"
    by (cases "rev xs") (auto simp add: list_all_iff dropWhile_eq_self_iff)
  moreover from True have "dropWhile (\<lambda>c. c = CHR ''='') (rev ys) = []"
    by simp
  ultimately show ?thesis
    by (simp add: strip_padding_def)
next
  case False
  then have "dropWhile (\<lambda>c. c = CHR ''='') (rev ys @ rev xs) = dropWhile (\<lambda>c. c = CHR ''='') (rev ys) @ rev xs"
    by (auto simp add: dropWhile_append)
  then show ?thesis
    by (simp add: strip_padding_def)
qed

lemma alphabet_not_pad: "i < 64 \<Longrightarrow> standard_alphabet ! i \<noteq> CHR ''=''"
  using alphabet_plain [of i] by simp

lemma strip_padding_standard: "strip_padding (standard_base64 b) = standard_unpadded b"
proof (induction b rule: standard_base64.induct)
  case (1 x y z rest)
  have "list_all (\<lambda>c. c \<noteq> CHR ''='')
          [standard_alphabet ! (of_char x div 4),
           standard_alphabet ! (of_char x mod 4 * 16 + of_char y div 16),
           standard_alphabet ! (of_char y mod 16 * 4 + of_char z div 64),
           standard_alphabet ! (of_char z mod 64)]"
    by (simp add: alphabet_not_pad sextet_bounds)
  from strip_padding_append [OF this, of "standard_base64 rest"] 1 show ?case
    by simp
next
  case (2 x y)
  have "list_all (\<lambda>c. c \<noteq> CHR ''='')
          [standard_alphabet ! (of_char x div 4),
           standard_alphabet ! (of_char x mod 4 * 16 + of_char y div 16),
           standard_alphabet ! (of_char y mod 16 * 4)]"
    by (simp add: alphabet_not_pad sextet_bounds)
  from strip_padding_append [OF this, of "''=''"] show ?case
    by (simp add: strip_padding_def)
next
  case (3 x)
  have "list_all (\<lambda>c. c \<noteq> CHR ''='')
          [standard_alphabet ! (of_char x div 4),
           standard_alphabet ! (of_char x mod 4 * 16)]"
    by (simp add: alphabet_not_pad sextet_bounds)
  from strip_padding_append [OF this, of "''==''"] show ?case
    by (simp add: strip_padding_def)
next
  case 4
  show ?case by (simp add: strip_padding_def)
qed

lemma length_standard_unpadded: "length (standard_unpadded b) mod 4 \<noteq> 1"
proof (induction b rule: standard_unpadded.induct)
  case (1 x y z rest)
  have "(4 + length (standard_unpadded rest)) mod 4 = length (standard_unpadded rest) mod 4"
    by simp
  with 1 show ?case
    by (simp del: mod_add_self1)
qed simp_all

text \<open>The polyfill decodes what RFC 4648 encodes: each byte comes back as one character.\<close>

lemma atob_standard_base64: "atob (standard_base64 b) = Some (map of_char b)"
proof -
  have "atob_loop 0 0 (standard_unpadded b) = map of_char b"
    by (rule atob_loop_unpadded) simp
  then show ?thesis
    using length_standard_unpadded [of b]
    by (simp add: atob_def strip_padding_standard Let_def)
qed

lemma standard_base64_plain:
  "list_all (\<lambda>c. c \<noteq> CHR 0x22 \<and> c \<noteq> CHR 0x5C \<and> c \<noteq> CHR 0x0A \<and> c \<noteq> CHR 0x0D \<and> c \<noteq> CHR 0x27)
     (standard_base64 b)"
proof (induction b rule: standard_base64.induct)
  case (1 x y z rest)
  with alphabet_plain [OF sextet_bounds(1), of x] alphabet_plain [OF sextet_bounds(2), of x y]
    alphabet_plain [OF sextet_bounds(3), of y z] alphabet_plain [OF sextet_bounds(4), of z]
  show ?case by simp
next
  case (2 x y)
  with alphabet_plain [OF sextet_bounds(1), of x] alphabet_plain [OF sextet_bounds(2), of x y]
    alphabet_plain [OF sextet_bounds(6), of y]
  show ?case by simp
next
  case (3 x)
  with alphabet_plain [OF sextet_bounds(1), of x] alphabet_plain [OF sextet_bounds(5), of x]
  show ?case by simp
next
  case 4
  show ?case by simp
qed

subsection \<open>C3: the base64 round trip\<close>

lemma escape_body_plain:
  "list_all (\<lambda>c. c \<noteq> CHR 0x22 \<and> c \<noteq> CHR 0x5C \<and> c \<noteq> CHR 0x0A \<and> c \<noteq> CHR 0x0D \<and> c \<noteq> CHR 0x27) body
     \<Longrightarrow> j + length body \<le> 16383 \<Longrightarrow> escape_body j body = body"
  by (induction body arbitrary: j) simp_all

lemma short_script_short_body:
  assumes "length (request_code_fmt p q h (standard_base64 b) (standard_base64 b) m) < 8192"
  shows "length b \<le> 12285" and "length (standard_base64 b) \<le> 16383"
proof -
  from assms have "4 * ((length b + 2) div 3) < 4 * 1024"
    by (simp add: length_request_code_fmt length_standard_base64)
  then have *: "(length b + 2) div 3 < 1024"
    by simp
  then have "length b + 2 < 1024 * 3"
    by (simp only: div_less_iff_less_mult zero_less_numeral)
  then show "length b \<le> 12285"
    by simp
  from * show "length (standard_base64 b) \<le> 16383"
    by (simp add: length_standard_base64)
qed

lemma request_body_standard:
  "b \<noteq> [] \<Longrightarrow> request_body (standard_base64 b) = Some (JS_String (map of_char b))"
proof -
  assume "b \<noteq> []"
  then have "standard_base64 b \<noteq> []"
    by (cases b rule: standard_base64.cases) simp_all
  with \<open>b \<noteq> []\<close> show ?thesis
    by (simp only: request_body_def atob_standard_base64 option.case if_True if_False
          map_is_Nil_conv not_False_eq_True not_not)
qed

text \<open>An invoke record with the empty body: the Request has the body null, not the empty string.\<close>

lemma request_body_empty: "request_body [] = Some JS_NULL"
  by (simp add: request_body_def)

lemma echo_engine_simps [simp]:
  "JS_Eval (echo_engine x) g (request_code ''/'' ''{}'' ''{}'' x ''POST'')
     = (case request_body x of None \<Rightarrow> (atob_failed, g) | Some body \<Rightarrow> (quiet (echo_request body), g))"
  "JS_Call (echo_engine x) g f args = (quiet (echo_response (hd args)), g)"
  "js_std_await (echo_engine x) g v = (quiet v, g)"
  "JS_ToInt32 (echo_engine x) (JS_Int i) = i"
  "JS_JSONStringify (echo_engine x) (JS_Object []) = js_ascii ''{}''"
  by (simp_all add: echo_engine_def demo_engine_def)

lemma echo_response_fields [simp]:
  "JS_GetPropertyStr (echo_response (echo_request body)) ''body'' = body"
  "JS_GetPropertyStr (echo_response req) ''status'' = JS_Int 200"
  "JS_GetPropertyStr (echo_response req) ''headers'' = JS_Object [(''_headers'', JS_Object [])]"
  "JS_GetPropertyStr (echo_request body) ''body'' = body"
  by (simp_all add: echo_response_def echo_request_def)

lemma echo_status_headers:
  "response_status (echo_engine x) (JS_Int 200) = 200"
  "response_headers (echo_engine x) (JS_Object [(''_headers'', JS_Object [])]) = Some ''{}''"
  by (simp_all add: response_status_def response_headers_def JS_IsUndefined_def JS_IsException_def
        Let_def JS_ToCString_ascii js_ascii_def [symmetric])

lemma echo_execute_handler:
  assumes "request_body x = Some body"
  shows "execute_handler (echo_engine x) loaded iid ''POST'' ''/'' ''{}'' ''{}'' x =
     (Some 0, loaded\<lparr>stdout := [send_response iid 200 (Some ''{}'') (response_body (echo_engine x) body)]\<rparr>)"
proof -
  have "execute_handler (echo_engine x) loaded iid ''POST'' ''/'' ''{}'' ''{}'' x =
     (Some 0,
      loaded\<lparr>stdout :=
               [send_response iid
                  (response_status (echo_engine x) (JS_GetPropertyStr (echo_response (echo_request body)) ''status''))
                  (response_headers (echo_engine x) (JS_GetPropertyStr (echo_response (echo_request body)) ''headers''))
                  (response_body (echo_engine x) (JS_GetPropertyStr (echo_response (echo_request body)) ''body''))]\<rparr>)"
    using eh_responds [of loaded "echo_engine x" "''/''" "''{}''" "''{}''" x "''POST''"
        "quiet (echo_request body)" "ctx loaded" "echo_request body"
        "quiet (echo_response (echo_request body))" "ctx loaded" "echo_response (echo_request body)"
        "quiet (echo_response (echo_request body))" "ctx loaded" "echo_response (echo_request body)" iid] assms
    by (simp add: JS_IsUndefined_def loaded_def)
  then show ?thesis
    by (simp add: echo_status_headers)
qed

lemma high_byte_response: "response_body eng (JS_String [255]) = standard_base64 high_byte_utf8"
proof -
  have "base64_loop 0 high_byte_utf8 = standard_base64 (take (3 * ((16380 - 0) div 4)) high_byte_utf8)"
    by (rule base64_loop_standard) simp_all
  moreover have "length high_byte_utf8 \<le> 12285"
    by (simp add: high_byte_utf8_def)
  ultimately have "base64_loop 0 high_byte_utf8 = standard_base64 high_byte_utf8"
    by simp
  moreover have "JS_ToCString eng (JS_String [255]) = Some high_byte_utf8"
  proof -
    have "to_c_string (JS_String [255]) = Some high_byte_utf8"
      unfolding high_byte_utf8_def by code_simp
    then show ?thesis
      by (simp add: to_c_string_def)
  qed
  ultimately show ?thesis
    by (simp add: response_body_def JS_IsUndefined_def JS_IsNull_def)
qed

text \<open>
  C3 fails on the code for the one byte 0xFF. An invoke record whose body is the base64
  encoding "/w==" of that byte gives the handler a Request whose body is the string of the
  one character U+00FF, as the claim says. The handler \<open>(req) => new Response(req.body)\<close>
  echoes it, and the response record written carries "w78=", which decodes to the two
  bytes 0xC3 0xBF and not to the byte sent: execute_handler encodes the bytes JS_ToCString
  gives, the UTF-8 encoding of the string.
\<close>

theorem high_byte_not_echoed:
  "request_body (standard_base64 high_byte) = Some (JS_String [255])
   \<and> stdout (snd (execute_handler (echo_engine (standard_base64 high_byte)) loaded
                    ''c'' ''POST'' ''/'' ''{}'' ''{}'' (standard_base64 high_byte)))
       = [send_response ''c'' 200 (Some ''{}'') (standard_base64 high_byte_utf8)]
   \<and> atob (standard_base64 high_byte_utf8) = Some [195, 191]
   \<and> standard_base64 high_byte = ''/w==''
   \<and> standard_base64 high_byte_utf8 = ''w78=''"
proof -
  have "high_byte \<noteq> []" and latin1: "map of_char high_byte = [255::nat]"
    by (simp_all add: high_byte_def)
  from request_body_standard [OF this(1)]
  have body: "request_body (standard_base64 high_byte) = Some (JS_String [255])"
    by (simp only: latin1)
  from echo_execute_handler [OF body, of "''c''"]
  have "stdout (snd (execute_handler (echo_engine (standard_base64 high_byte)) loaded
                    ''c'' ''POST'' ''/'' ''{}'' ''{}'' (standard_base64 high_byte)))
       = [send_response ''c'' 200 (Some ''{}'') (standard_base64 high_byte_utf8)]"
    by (simp add: high_byte_response)
  moreover have "atob (standard_base64 high_byte_utf8) = Some [195, 191]"
  proof -
    have "map of_char high_byte_utf8 = [195, 191::nat]"
      by (simp add: high_byte_utf8_def)
    then show ?thesis
      by (simp only: atob_standard_base64)
  qed
  moreover have "standard_base64 high_byte = ''/w==''"
    unfolding high_byte_def by code_simp
  moreover have "standard_base64 high_byte_utf8 = ''w78=''"
    unfolding high_byte_utf8_def by code_simp
  ultimately show ?thesis
    using body by simp
qed

text \<open>
  C3, amended: for every non-empty byte string b, an invoke record whose body is the
  base64 encoding of b, whose path is shorter than 1024 bytes and whose request script
  fits the 8192 bytes of request_code (8191 characters and the NUL), gives the handler
  a Request whose body is b as a Latin-1 string, one character per byte, whenever the
  engine evaluates the request script as \<open>request_body\<close> says; the polyfill's atob
  decodes the encoding to b. If moreover every byte of b is between 1 and 127 and the
  handler's awaited result has the body of the Request as its body, the worker writes,
  after the log records of the guest code, one response record whose body field is the
  base64 encoding of b, unescaped.
\<close>

theorem base64_round_trip:
  assumes "\<not> JS_IsUndefined (handler_func s)"
    and "b \<noteq> []"
    and "length path < 1024"
    and "length (request_code_fmt path query_json headers_json (standard_base64 b) (standard_base64 b) method) < 8192"
    and "JS_Eval eng (ctx s) (request_code path query_json headers_json (standard_base64 b) method) = (r1, c1)"
    and "outcome r1 = Returned req"
    and "request_body (standard_base64 b) = Some (JS_GetPropertyStr req ''body'')"
    and "JS_Call eng c1 (handler_func s) [req] = (r2, c2)"
    and "outcome r2 = Returned promise"
    and "js_std_await eng c2 promise = (r3, c3)"
    and "outcome r3 = Returned result"
    and "JS_GetPropertyStr result ''body'' = JS_GetPropertyStr req ''body''"
  shows "JS_GetPropertyStr req ''body'' = JS_String (map of_char b)
     \<and> atob (standard_base64 b) = Some (map of_char b)
     \<and> (list_all (\<lambda>c. c \<noteq> CHR 0x00 \<and> of_char c < (128::nat)) b \<longrightarrow>
          execute_handler eng s iid method path headers_json query_json (standard_base64 b) =
            (Some 0, s\<lparr>current_invoke_id := [], ctx := c3,
                      stdout := stdout s
                        @ map (js_bunbase_log eng (take 63 iid)) (log_calls r1 @ log_calls r2 @ log_calls r3)
                        @ [send_response iid
                             (response_status eng (JS_GetPropertyStr result ''status''))
                             (response_headers eng (JS_GetPropertyStr result ''headers''))
                             (standard_base64 b)]\<rparr>)
          \<and> escape_body 0 (standard_base64 b) = standard_base64 b)"
proof -
  have observed: "JS_GetPropertyStr req ''body'' = JS_String (map of_char b)"
    using assms(7) request_body_standard [OF assms(2)] by simp
  have run: "execute_handler eng s iid method path headers_json query_json (standard_base64 b) =
            (Some 0, s\<lparr>current_invoke_id := [], ctx := c3,
                      stdout := stdout s
                        @ map (js_bunbase_log eng (take 63 iid)) (log_calls r1 @ log_calls r2 @ log_calls r3)
                        @ [send_response iid
                             (response_status eng (JS_GetPropertyStr result ''status''))
                             (response_headers eng (JS_GetPropertyStr result ''headers''))
                             (response_body eng (JS_GetPropertyStr result ''body''))]\<rparr>)"
    using assms(1,5,6,8,9,10,11) by (rule eh_responds)
  have short: "take 12285 b = b" "0 + length (standard_base64 b) \<le> 16383"
    using short_script_short_body [OF assms(4)] by simp_all
  have escaped: "escape_body 0 (standard_base64 b) = standard_base64 b"
    using standard_base64_plain short(2) by (rule escape_body_plain)
  have encoded: "response_body eng (JS_GetPropertyStr result ''body'') = standard_base64 b"
    if "list_all (\<lambda>c. c \<noteq> CHR 0x00 \<and> of_char c < (128::nat)) b"
  proof -
    from that have "list_all (\<lambda>c. of_char c < (128::nat)) b" "list_all (\<lambda>c. c \<noteq> CHR 0x00) b"
      by (simp_all add: list_all_iff)
    then have "response_body eng (js_ascii b) = standard_base64 (take 12285 b)"
      by (rule response_body_ascii)
    with short(1) assms(12) observed show ?thesis
      by (simp add: js_ascii_def)
  qed
  from observed run escaped encoded show ?thesis
    by (simp add: atob_standard_base64)
qed

theorem base64_round_trip_witness:
  "JS_GetPropertyStr (echo_request (JS_String (map of_char ''hi''))) ''body'' = JS_String (map of_char ''hi'')
   \<and> atob (standard_base64 ''hi'') = Some (map of_char ''hi'')
   \<and> execute_handler (echo_engine (standard_base64 ''hi'')) loaded ''d'' ''POST'' ''/'' ''{}'' ''{}''
         (standard_base64 ''hi'')
       = (Some 0, loaded\<lparr>stdout := [send_response ''d'' 200 (Some ''{}'') (standard_base64 ''hi'')]\<rparr>)
   \<and> escape_body 0 (standard_base64 ''hi'') = standard_base64 ''hi''"
proof -
  let ?x = "standard_base64 ''hi''"
  let ?req = "echo_request (JS_String (map of_char ''hi''))"
  have body: "request_body ?x = Some (JS_String (map of_char ''hi''))"
    by (rule request_body_standard) simp
  have 1: "\<not> JS_IsUndefined (handler_func loaded)"
    by (simp add: JS_IsUndefined_def)
  have 2: "''hi'' \<noteq> []"
    by simp
  have 3: "length ''/'' < 1024"
    by simp
  have 4: "length (request_code_fmt ''/'' ''{}'' ''{}'' ?x ?x ''POST'') < 8192"
    by (simp add: length_request_code_fmt length_standard_base64)
  have 5: "JS_Eval (echo_engine ?x) (ctx loaded) (request_code ''/'' ''{}'' ''{}'' ?x ''POST'')
             = (quiet ?req, ctx loaded)"
    by (simp only: echo_engine_simps body option.case)
  have 6: "outcome (quiet ?req) = Returned ?req"
    by simp
  have 7: "request_body ?x = Some (JS_GetPropertyStr ?req ''body'')"
    by (simp only: body echo_response_fields)
  have 8: "JS_Call (echo_engine ?x) (ctx loaded) (handler_func loaded) [?req]
             = (quiet (echo_response ?req), ctx loaded)"
    by (simp only: echo_engine_simps list.sel)
  have 9: "outcome (quiet (echo_response ?req)) = Returned (echo_response ?req)"
    by simp
  have 10: "js_std_await (echo_engine ?x) (ctx loaded) (echo_response ?req)
             = (quiet (echo_response ?req), ctx loaded)"
    by (simp only: echo_engine_simps)
  have 12: "JS_GetPropertyStr (echo_response ?req) ''body'' = JS_GetPropertyStr ?req ''body''"
    by (simp only: echo_response_fields)
  have ascii: "list_all (\<lambda>c. c \<noteq> CHR 0x00 \<and> of_char c < (128::nat)) ''hi''"
    by simp
  from base64_round_trip [OF 1 2 3 4 5 6 7 8 9 10 9 12, of "''d''"] ascii
  show ?thesis
    by (simp add: echo_status_headers loaded_def del: standard_base64.simps)
qed

subsection \<open>C5: eval is removed after the shims and before the bundle\<close>

lemma map_of_filter_out: "(\<And>v. \<not> P (name, v)) \<Longrightarrow> map_of (filter P g) name = None"
  by (induction g) auto

lemma map_of_filter_other: "name' \<noteq> name \<Longrightarrow> map_of (filter (\<lambda>p. fst p \<noteq> name') g) name = map_of g name"
  by (induction g) auto

lemma deleted_without_eval:
  "without_eval (JS_DeleteProperty_global ''Function'' (JS_DeleteProperty_global ''eval'' g))"
  by (simp add: without_eval_def JS_DeleteProperty_global_def map_of_filter_out map_of_filter_other)

lemma filter_absent: "map_of g name = None \<Longrightarrow> filter (\<lambda>p. fst p \<noteq> name) g = g"
  by (induction g) (auto split: if_splits)

lemma delete_where_unbound:
  "without_eval g \<Longrightarrow> JS_DeleteProperty_global ''Function'' (JS_DeleteProperty_global ''eval'' g) = g"
  by (simp add: without_eval_def JS_DeleteProperty_global_def filter_absent)

lemma typeof_without_eval:
  "without_eval g \<Longrightarrow> js_typeof (map_of (globals g) ''eval'') = ''undefined''
     \<and> js_typeof (map_of (globals g) ''Function'') = ''undefined''"
  by (simp add: without_eval_def js_typeof_def)

lemma JS_ToCString_same:
  assumes "JS_ToString eng' = JS_ToString eng" shows "JS_ToCString eng' = JS_ToCString eng"
proof
  fix v show "JS_ToCString eng' v = JS_ToCString eng v"
    by (cases v) (simp_all only: JS_ToCString.simps assms)
qed

lemma js_bunbase_log_same:
  assumes "JS_ToString eng' = JS_ToString eng"
  shows "js_bunbase_log eng' = js_bunbase_log eng"
  by (intro ext) (simp only: js_bunbase_log_def JS_ToCString_same [OF assms])

lemma guest_logs_same:
  assumes "JS_ToString eng' = JS_ToString eng"
  shows "guest_logs eng' = guest_logs eng"
  by (intro ext) (simp only: guest_logs_def js_bunbase_log_same [OF assms])

lemma response_same:
  assumes "JS_ToString eng' = JS_ToString eng" and "JS_JSONStringify eng' = JS_JSONStringify eng"
    and "JS_ToInt32 eng' = JS_ToInt32 eng"
  shows "response_status eng' = response_status eng"
    and "response_headers eng' = response_headers eng"
    and "response_body eng' = response_body eng"
    and "payload_strings eng' = payload_strings eng"
  by (intro ext, simp only: response_status_def response_headers_def response_body_def
        payload_strings_def assms(2,3) JS_ToCString_same [OF assms(1)])+

lemma execute_handler_same:
  assumes conv: "JS_ToString eng' = JS_ToString eng" "JS_JSONStringify eng' = JS_JSONStringify eng"
      "JS_ToInt32 eng' = JS_ToInt32 eng"
    and script: "JS_Eval eng' = JS_Eval eng"
    and agree: "\<And>g. I g \<Longrightarrow> js_std_await eng' g = js_std_await eng g \<and> JS_Call eng' g = JS_Call eng g"
    and keeps: "\<And>g. I g \<Longrightarrow> (\<forall>v. I (snd (js_std_await eng g v))) \<and> (\<forall>f args. I (snd (JS_Call eng g f args)))
                  \<and> (\<forall>code. I (snd (JS_Eval eng g code)))"
    and start: "I (ctx s)"
  shows "execute_handler eng' s iid m p h q b = execute_handler eng s iid m p h q b"
    and "I (ctx (snd (execute_handler eng s iid m p h q b)))"
proof -
  let ?r1 = "JS_Eval eng (ctx s) (request_code p q h b m)"
  have 1: "I (snd ?r1)"
    using keeps [OF start] by simp
  have call: "JS_Call eng' (snd ?r1) = JS_Call eng (snd ?r1)"
    using agree [OF 1] by simp
  have 2: "I (snd (JS_Call eng (snd ?r1) f args))" for f args
    using keeps [OF 1] by simp
  have await: "js_std_await eng' (snd (JS_Call eng (snd ?r1) f args)) = js_std_await eng (snd (JS_Call eng (snd ?r1) f args))"
    for f args
    using agree [OF 2] by simp
  have 3: "I (snd (js_std_await eng (snd (JS_Call eng (snd ?r1) f args)) v))" for f args v
    using keeps [OF 2] by simp
  show "execute_handler eng' s iid m p h q b = execute_handler eng s iid m p h q b"
    by (simp add: execute_handler_def Let_def script call await guest_logs_same [OF conv(1)]
          response_same [OF conv] cong: completion.case_cong)
  have "ctx (snd (execute_handler eng s iid m p h q b)) \<in>
          {ctx s, snd ?r1} \<union> {snd (JS_Call eng (snd ?r1) f args) | f args. True}
          \<union> {snd (js_std_await eng (snd (JS_Call eng (snd ?r1) f args)) v) | f args v. True}"
    by (simp add: execute_handler_def Let_def emit_def split: completion.splits) blast
  with start 1 2 3 show "I (ctx (snd (execute_handler eng s iid m p h q b)))"
    by auto
qed

lemma process_line_ctx:
  "ctx (snd (process_line eng s raw)) = ctx s
     \<or> (\<exists>iid m p h q b. ctx (snd (process_line eng s raw)) = ctx (snd (execute_handler eng s iid m p h q b)))"
proof (cases "raw = [] \<or> hd raw = CHR 0x0A")
  case True
  then show ?thesis
    by (auto simp add: process_line_def)
next
  case False
  show ?thesis
  proof (cases "JS_ParseJSON eng (chomp raw)")
    case (Inl error)
    with False show ?thesis
      by (simp add: process_line_def)
  next
    case (Inr msg)
    show ?thesis
    proof (cases "JS_ToCString eng (JS_GetPropertyStr msg ''type'') = Some ''invoke''")
      case no: False
      with False Inr show ?thesis
        by (simp add: process_line_def Let_def)
    next
      case invoke: True
      show ?thesis
      proof (cases "JS_IsUndefined (JS_GetPropertyStr msg ''payload'')")
        case True
        from False have "raw \<noteq> []" "hd raw \<noteq> CHR 0x0A"
          by simp_all
        from missing_payload [OF this Inr invoke True, of s] show ?thesis
          by simp
      next
        case payload: False
        obtain m p h q b where args: "payload_strings eng (JS_GetPropertyStr msg ''payload'') = (m, p, h, q, b)"
          by (metis prod.exhaust)
        from False have "raw \<noteq> []" "hd raw \<noteq> CHR 0x0A"
          by simp_all
        from process_line_payload [OF this Inr invoke payload args refl, of s]
        have "snd (process_line eng s raw) = snd (execute_handler eng s
                (or_default (JS_ToCString eng (JS_GetPropertyStr msg ''id'')) ''unknown'') m p h q b)"
          by simp
        then show ?thesis
          by metis
      qed
    qed
  qed
qed

lemma process_line_same:
  assumes conv: "JS_ToString eng' = JS_ToString eng" "JS_JSONStringify eng' = JS_JSONStringify eng"
      "JS_ToInt32 eng' = JS_ToInt32 eng"
    and script: "JS_Eval eng' = JS_Eval eng" and parse: "JS_ParseJSON eng' = JS_ParseJSON eng"
    and agree: "\<And>g. I g \<Longrightarrow> js_std_await eng' g = js_std_await eng g \<and> JS_Call eng' g = JS_Call eng g"
    and keeps: "\<And>g. I g \<Longrightarrow> (\<forall>v. I (snd (js_std_await eng g v))) \<and> (\<forall>f args. I (snd (JS_Call eng g f args)))
                  \<and> (\<forall>code. I (snd (JS_Eval eng g code)))"
    and start: "I (ctx s)"
  shows "process_line eng' s raw = process_line eng s raw"
    and "I (ctx (snd (process_line eng s raw)))"
proof -
  have eh: "execute_handler eng' s iid m p h q b = execute_handler eng s iid m p h q b"
    "I (ctx (snd (execute_handler eng s iid m p h q b)))" for iid m p h q b
    by (rule execute_handler_same(1) [OF conv script agree keeps start], assumption+)
       (rule execute_handler_same(2) [OF conv script agree keeps start], assumption+)
  show "process_line eng' s raw = process_line eng s raw"
    unfolding process_line_def parse JS_ToCString_same [OF conv(1)] response_same(4) [OF conv] eh(1)
    by (rule refl)
  from process_line_ctx [of eng s raw] start eh(2)
  show "I (ctx (snd (process_line eng s raw)))"
    by auto
qed

lemma process_messages_same:
  assumes conv: "JS_ToString eng' = JS_ToString eng" "JS_JSONStringify eng' = JS_JSONStringify eng"
      "JS_ToInt32 eng' = JS_ToInt32 eng"
    and script: "JS_Eval eng' = JS_Eval eng" and parse: "JS_ParseJSON eng' = JS_ParseJSON eng"
    and agree: "\<And>g. I g \<Longrightarrow> js_std_await eng' g = js_std_await eng g \<and> JS_Call eng' g = JS_Call eng g"
    and keeps: "\<And>g. I g \<Longrightarrow> (\<forall>v. I (snd (js_std_await eng g v))) \<and> (\<forall>f args. I (snd (JS_Call eng g f args)))
                  \<and> (\<forall>code. I (snd (JS_Eval eng g code)))"
  shows "I (ctx s) \<Longrightarrow> process_messages eng' s lines = process_messages eng s lines"
proof (induction lines arbitrary: s)
  case Nil
  show ?case by simp
next
  case (Cons raw rest)
  note pl = process_line_same [of eng' eng I, OF conv script parse agree keeps Cons.prems]
  obtain e s' where step: "process_line eng s raw = (e, s')"
    by (cases "process_line eng s raw")
  with pl(2) [of raw] have "I (ctx s')"
    by simp
  then have "process_messages eng' s' rest = process_messages eng s' rest"
    by (rule Cons.IH)
  with step pl(1) [of raw] show ?case
    by (simp split: ending.splits)
qed

lemma startup_same:
  assumes "JS_ToString eng' = JS_ToString eng" and "JS_Eval eng' = JS_Eval eng"
    and "js_std_add_helpers eng' = js_std_add_helpers eng"
  shows "startup eng' = startup eng"
proof -
  have "install_script eng' = install_script eng"
    by (intro ext) (simp only: install_script_def assms(2) guest_logs_same [OF assms(1)])
  then have "add_base64_polyfills eng' = add_base64_polyfills eng"
    "add_web_apis eng' = add_web_apis eng" "add_console_override eng' = add_console_override eng"
    by (intro ext, simp only: add_base64_polyfills_def add_web_apis_def add_console_override_def)+
  then have "install_shims eng' = install_shims eng"
    by (intro ext) (simp only: install_shims_def assms(3))
  then show ?thesis
    by (intro ext) (simp only: startup_def)
qed

lemma startup_without_eval:
  assumes "startup eng caps s = (True, s0)" and "\<not> allow_eval caps"
  shows "without_eval (ctx s0)"
  using assms
  by (auto simp add: startup_def disable_eval_def deleted_without_eval split: prod.splits bool.splits)

lemma load_bundle_same:
  assumes conv: "JS_ToString eng' = JS_ToString eng"
    and loader: "JS_Eval_compile eng' = JS_Eval_compile eng" "JS_ResolveModule eng' = JS_ResolveModule eng"
      "js_module_set_import_meta eng' = js_module_set_import_meta eng"
      "JS_VALUE_GET_PTR_null eng' = JS_VALUE_GET_PTR_null eng"
      "JS_GetModuleNamespace eng' = JS_GetModuleNamespace eng"
    and module: "JS_EvalFunction eng' (ctx s) = JS_EvalFunction eng (ctx s)"
    and agree: "\<And>g. I g \<Longrightarrow> js_std_await eng' g = js_std_await eng g"
    and keeps: "\<And>g. I g \<Longrightarrow> (\<forall>v. I (snd (js_std_await eng g v))) \<and> (\<forall>m. I (snd (JS_EvalFunction eng g m)))"
    and start: "I (ctx s)"
  shows "load_bundle eng' fopen s path = load_bundle eng fopen s path"
    and "I (ctx (snd (load_bundle eng fopen s path)))"
proof -
  have 1: "I (snd (JS_EvalFunction eng (ctx s) mf))" for mf
    using keeps [OF start] by simp
  have await: "js_std_await eng' (snd (JS_EvalFunction eng (ctx s) mf)) = js_std_await eng (snd (JS_EvalFunction eng (ctx s) mf))"
    for mf
    using agree [OF 1] by simp
  have 2: "I (snd (js_std_await eng (snd (JS_EvalFunction eng (ctx s) mf)) v))" for mf v
    using keeps [OF 1] by simp
  have retain: "retain_handler eng' = retain_handler eng"
    by (intro ext) (simp only: retain_handler_def loader)
  have retain_ctx: "ctx (snd (retain_handler eng t mf)) = ctx t" for t mf
    by (simp add: retain_handler_def load_failed_def Let_def split: sum.splits)
  have run: "run_module eng' s mf = run_module eng s mf" for mf
    by (simp add: run_module_def Let_def module await retain guest_logs_same [OF conv]
          cong: completion.case_cong)
  show "load_bundle eng' fopen s path = load_bundle eng fopen s path"
    by (simp add: load_bundle_def loader run cong: option.case_cong sum.case_cong if_cong)
  have "I (ctx (snd (run_module eng s mf)))" for mf
  proof -
    have "ctx (snd (run_module eng s mf)) = snd (JS_EvalFunction eng (ctx s) mf)
          \<or> (\<exists>v. ctx (snd (run_module eng s mf))
                   = snd (js_std_await eng (snd (JS_EvalFunction eng (ctx s) mf)) v))"
      by (simp add: run_module_def Let_def load_failed_def retain_ctx split: completion.splits) blast
    with 1 [of mf] 2 [of mf] show ?thesis
      by auto
  qed
  with start show "I (ctx (snd (load_bundle eng fopen s path)))"
    by (simp add: load_bundle_def load_failed_def split: option.splits sum.splits)
qed

lemma main_same:
  assumes same: "eng' = eng\<lparr>JS_EvalFunction := JS_EvalFunction eng', js_std_await := js_std_await eng',
                             JS_Call := JS_Call eng'\<rparr>"
    and env: "getenv ''ALLOW_EVAL'' = None"
    and module: "\<And>g. without_eval g \<Longrightarrow> JS_EvalFunction eng' g = JS_EvalFunction eng g"
    and agree: "\<And>g. I g \<Longrightarrow> js_std_await eng' g = js_std_await eng g \<and> JS_Call eng' g = JS_Call eng g"
    and keeps: "\<And>g. I g \<Longrightarrow> (\<forall>m. I (snd (JS_EvalFunction eng g m))) \<and> (\<forall>v. I (snd (js_std_await eng g v)))
                  \<and> (\<forall>f args. I (snd (JS_Call eng g f args))) \<and> (\<forall>code. I (snd (JS_Eval eng g code)))"
    and init: "\<And>g. without_eval g \<Longrightarrow> I g"
  shows "main eng' getenv fopen getpid stdin = main eng getenv fopen getpid stdin"
proof -
  have f: "JS_NewRuntime eng' = JS_NewRuntime eng" "JS_NewContext eng' = JS_NewContext eng"
    "js_std_add_helpers eng' = js_std_add_helpers eng" "JS_ParseJSON eng' = JS_ParseJSON eng"
    "JS_JSONStringify eng' = JS_JSONStringify eng" "JS_ToInt32 eng' = JS_ToInt32 eng"
    "JS_ToString eng' = JS_ToString eng" "JS_Eval eng' = JS_Eval eng"
    and loader: "JS_Eval_compile eng' = JS_Eval_compile eng" "JS_ResolveModule eng' = JS_ResolveModule eng"
    "js_module_set_import_meta eng' = js_module_set_import_meta eng"
    "JS_VALUE_GET_PTR_null eng' = JS_VALUE_GET_PTR_null eng"
    "JS_GetModuleNamespace eng' = JS_GetModuleNamespace eng"
    by (subst same, simp)+
  have start: "startup eng' = startup eng"
    using f(7,8,3) by (rule startup_same)
  have agree1: "js_std_await eng' g = js_std_await eng g" if "I g" for g
    using agree [OF that] by simp
  have keeps1: "(\<forall>v. I (snd (js_std_await eng g v))) \<and> (\<forall>m. I (snd (JS_EvalFunction eng g m)))" if "I g" for g
    using keeps [OF that] by simp
  have keeps2: "(\<forall>v. I (snd (js_std_await eng g v))) \<and> (\<forall>f args. I (snd (JS_Call eng g f args)))
                  \<and> (\<forall>code. I (snd (JS_Eval eng g code)))" if "I g" for g
    using keeps [OF that] by simp
  have serve: "serve eng' fopen path wid stdin s0 = serve eng fopen path wid stdin s0"
    if clean: "without_eval (ctx s0)" for path wid s0
  proof -
    obtain rc s1 where load: "load_bundle eng fopen s0 path = (rc, s1)"
      by (cases "load_bundle eng fopen s0 path")
    have lb: "load_bundle eng' fopen s0 path = load_bundle eng fopen s0 path"
      "I (ctx (snd (load_bundle eng fopen s0 path)))"
      by (rule load_bundle_same(1) [OF f(7) loader module [OF clean] agree1 keeps1 init [OF clean]], assumption+)
         (rule load_bundle_same(2) [OF f(7) loader module [OF clean] agree1 keeps1 init [OF clean]], assumption+)
    from lb(2) load have ready: "I (ctx (emit (send_ready wid) s1))"
      by simp
    have "process_messages eng' (emit (send_ready wid) s1) stdin
                 = process_messages eng (emit (send_ready wid) s1) stdin"
      by (rule process_messages_same [where I = I, OF f(7,5,6,8,4) agree keeps2 ready], assumption+)
    with lb(1) load show ?thesis
      by (cases rc) (simp_all add: serve_def Let_def)
  qed
  have caps: "\<not> allow_eval (setup_capabilities getenv)"
    using env by (simp add: setup_capabilities_def)
  show ?thesis
  proof (cases "getenv ''BUNDLE_PATH''")
    case None
    then show ?thesis
      by (simp add: main_def)
  next
    case (Some bundle_path)
    show ?thesis
    proof (cases "JS_NewContext eng")
      case None
      with Some f(1,2) show ?thesis
        by (simp add: main_def)
    next
      case ctx: (Some c0)
      obtain ok s0 where st: "startup eng (setup_capabilities getenv)
          \<lparr>handler_func = JS_UNDEFINED, current_invoke_id = [], ctx = c0, stdout = [], stderr = []\<rparr> = (ok, s0)"
        by (metis prod.exhaust)
      show ?thesis
      proof (cases ok)
        case False
        with Some ctx st f(1,2) start show ?thesis
          by (simp add: main_def)
      next
        case True
        with st caps have "without_eval (ctx s0)"
          by (simp add: startup_without_eval)
        from serve [OF this] Some ctx st True f(1,2) start show ?thesis
          by (simp add: main_def)
      qed
    qed
  qed
qed

lemma demo_install_shims:
  "install_shims demo_engine (booted\<lparr>ctx := c0\<rparr>) =
     (True, booted\<lparr>ctx := JS_SetPropertyStr_global ''__bunbase_log'' (JS_Function ''__bunbase_log'') c0\<rparr>)"
  by (simp add: install_shims_def add_base64_polyfills_def add_web_apis_def add_console_override_def
        install_script_def Let_def guest_logs_def demo_engine_def booted_def)

lemma bundle_engine_simps [simp]:
  "JS_Call (bundle_engine effect observe) g f args = (quiet (text_response (observe g)), g)"
  "JS_EvalFunction (bundle_engine effect observe) g m = (quiet JS_UNDEFINED, effect g)"
  "JS_Eval (bundle_engine effect observe) = JS_Eval demo_engine"
  "js_std_await (bundle_engine effect observe) = js_std_await demo_engine"
  "JS_ParseJSON (bundle_engine effect observe) = demo_parse"
  "JS_ToString (bundle_engine effect observe) = JS_ToString demo_engine"
  "JS_JSONStringify (bundle_engine effect observe) = JS_JSONStringify demo_engine"
  "JS_ToInt32 (bundle_engine effect observe) = JS_ToInt32 demo_engine"
  "js_std_add_helpers (bundle_engine effect observe) = js_std_add_helpers demo_engine"
  "JS_NewRuntime (bundle_engine effect observe)"
  "JS_NewContext (bundle_engine effect observe) = JS_NewContext demo_engine"
  by (simp_all add: bundle_engine_def demo_engine_def)

lemma bundle_engine_loader:
  "JS_Eval_compile (bundle_engine effect observe) code path = Inr (JS_Object [])"
  "JS_ResolveModule (bundle_engine effect observe) m = None"
  "js_module_set_import_meta (bundle_engine effect observe) m = None"
  "\<not> JS_VALUE_GET_PTR_null (bundle_engine effect observe) m"
  "JS_GetModuleNamespace (bundle_engine effect observe) g m = Inr demo_namespace"
  by (simp_all add: bundle_engine_def demo_engine_def)

lemma demo_startup:
  "demo_getenv ''ALLOW_EVAL'' = None \<Longrightarrow>
   startup demo_engine (setup_capabilities demo_getenv)
     \<lparr>handler_func = JS_UNDEFINED, current_invoke_id = [],
      ctx = \<lparr>globals = [(''eval'', JS_Function ''eval''), (''Function'', JS_Function ''Function'')], heap = ()\<rparr>,
      stdout = [], stderr = []\<rparr>
   = (True, booted\<lparr>ctx := \<lparr>globals = [(''__bunbase_log'', JS_Function ''__bunbase_log'')], heap = ()\<rparr>\<rparr>)"
  using demo_install_shims
    [of "\<lparr>globals = [(''eval'', JS_Function ''eval''), (''Function'', JS_Function ''Function'')], heap = ()\<rparr>"]
  by (simp add: startup_def disable_eval_def setup_capabilities_def booted_def
        JS_DeleteProperty_global_def JS_SetPropertyStr_global_def)

lemma js_ascii_is_string:
  "JS_IsString (js_ascii t)" "js_ascii t \<noteq> JS_EXCEPTION" "js_ascii t \<noteq> JS_UNDEFINED" "js_ascii t \<noteq> JS_NULL"
  by (simp_all add: js_ascii_def)

lemma text_response_fields [simp]:
  "JS_GetPropertyStr (text_response t) ''status'' = JS_Int 200"
  "JS_GetPropertyStr (text_response t) ''headers''
     = JS_Object [(''_headers'', JS_Object [(''content-type'', js_ascii ''text/plain'')])]"
  "JS_GetPropertyStr (text_response t) ''body'' = js_ascii t"
  by (simp_all add: text_response_def)

lemma main_bundle_engine:
  assumes src: "fopen ''/bundle.js'' = Some code" "length code \<le> MAX_BUNDLE_SIZE"
    and g1: "g1 = effect \<lparr>globals = [(''__bunbase_log'', JS_Function ''__bunbase_log'')], heap = ()\<rparr>"
    and ascii: "list_all (\<lambda>c. of_char c < (128::nat)) (observe g1)" "list_all (\<lambda>c. c \<noteq> CHR 0x00) (observe g1)"
      "length (observe g1) \<le> 12285"
  shows \<open>main (bundle_engine effect observe) demo_getenv fopen 1 [invoke_a @ [CHR 0x0A]] =
           (Undefined_behaviour,
            [send_ready ''worker-1'',
             send_response ''a'' 200 (Some ''{"content-type":"text/plain"}'') (standard_base64 (observe g1))],
            [])\<close>
proof -
  let ?E = "bundle_engine effect observe"
  let ?g0 = "\<lparr>globals = [(''__bunbase_log'', JS_Function ''__bunbase_log'')], heap = ()\<rparr> :: unit guest"
  let ?s1 = "booted\<lparr>ctx := g1, handler_func := JS_Function ''handler''\<rparr>"
  let ?s2 = "emit (send_ready ''worker-1'') ?s1"
  have env: "demo_getenv ''ALLOW_EVAL'' = None" "demo_getenv ''BUNDLE_PATH'' = Some ''/bundle.js''"
    "demo_getenv ''WORKER_ID'' = None"
    by (simp_all add: demo_getenv_def)
  have "printf_d (int 1) = ''1''"
    by code_simp
  then have wid: "snprintf 64 (''worker-'' @ printf_d (int 1)) = ''worker-1''"
    by (simp add: snprintf_def)
  have "startup ?E = startup demo_engine"
    by (rule startup_same) simp_all
  with demo_startup [OF env(1)] have start:
    "startup ?E (setup_capabilities demo_getenv)
       \<lparr>handler_func = JS_UNDEFINED, current_invoke_id = [],
        ctx = \<lparr>globals = [(''eval'', JS_Function ''eval''), (''Function'', JS_Function ''Function'')], heap = ()\<rparr>,
        stdout = [], stderr = []\<rparr>
     = (True, booted\<lparr>ctx := ?g0\<rparr>)"
    by simp
  have "load_bundle ?E fopen (booted\<lparr>ctx := ?g0\<rparr>) ''/bundle.js'' = run_module ?E (booted\<lparr>ctx := ?g0\<rparr>) (JS_Object [])"
    using src by (rule load_bundle_run) (simp_all add: bundle_engine_loader)
  also have "\<dots> = retain_handler ?E
             (booted\<lparr>ctx := ?g0\<rparr>\<lparr>ctx := g1,
                stdout := stdout (booted\<lparr>ctx := ?g0\<rparr>)
                  @ map (js_bunbase_log ?E (current_invoke_id (booted\<lparr>ctx := ?g0\<rparr>)))
                      (log_calls (quiet JS_UNDEFINED) @ log_calls (quiet JS_UNDEFINED))\<rparr>)
             (JS_Object [])"
    by (rule run_module_retain [where ?v1.0 = JS_UNDEFINED and ?v2.0 = JS_UNDEFINED])
       (simp_all add: g1 demo_engine_def)
  also have "\<dots> = (Some 0, ?s1)"
    by (simp add: retain_handler_def bundle_engine_loader demo_namespace_def booted_def)
  finally have load: "load_bundle ?E fopen (booted\<lparr>ctx := ?g0\<rparr>) ''/bundle.js'' = (Some 0, ?s1)" .
  have stringify: "JS_JSONStringify ?E (JS_Object []) = js_ascii ''{}''"
    \<open>JS_JSONStringify ?E (JS_Object [(''content-type'', js_ascii ''text/plain'')])
       = js_ascii ''{"content-type":"text/plain"}''\<close>
    by (simp_all add: demo_engine_def)
  have args: "payload_strings ?E (JS_GetPropertyStr msg_a ''payload'') = (''GET'', ''/hi'', ''{}'', ''{}'', [])"
    by (simp add: payload_strings_def msg_a_def Let_def stringify JS_ToCString_ascii del: bundle_engine_simps(7))
  have status: "response_status ?E (JS_Int 200) = 200"
    by (simp add: response_status_def JS_IsUndefined_def demo_engine_def)
  have headers: \<open>response_headers ?E (JS_Object [(''_headers'', JS_Object [(''content-type'', js_ascii ''text/plain'')])])
                   = Some ''{"content-type":"text/plain"}''\<close>
    by (simp add: response_headers_def JS_IsUndefined_def JS_IsException_def Let_def stringify
          JS_ToCString_ascii js_ascii_is_string del: bundle_engine_simps(7))
  have body: "response_body ?E (js_ascii (observe g1)) = standard_base64 (observe g1)"
    using response_body_ascii [OF ascii(1,2), of ?E] ascii(3) by simp
  have "execute_handler ?E ?s2 ''a'' ''GET'' ''/hi'' ''{}'' ''{}'' [] =
     (Some 0,
      ?s2\<lparr>current_invoke_id := [], ctx := g1,
          stdout := stdout ?s2
            @ map (js_bunbase_log ?E (take 63 ''a''))
                (log_calls (quiet demo_request) @ log_calls (quiet (text_response (observe g1)))
                 @ log_calls (quiet (text_response (observe g1))))
            @ [send_response ''a''
                 (response_status ?E (JS_GetPropertyStr (text_response (observe g1)) ''status''))
                 (response_headers ?E (JS_GetPropertyStr (text_response (observe g1)) ''headers''))
                 (response_body ?E (JS_GetPropertyStr (text_response (observe g1)) ''body''))]\<rparr>)"
    by (rule eh_responds [where req = demo_request and promise = "text_response (observe g1)"])
       (simp_all add: JS_IsUndefined_def)
  then have run: \<open>execute_handler ?E ?s2 ''a'' ''GET'' ''/hi'' ''{}'' ''{}'' [] =
     (Some 0,
      ?s1\<lparr>stdout := [send_ready ''worker-1'',
                       send_response ''a'' 200 (Some ''{"content-type":"text/plain"}'')
                         (standard_base64 (observe g1))]\<rparr>)\<close>
    by (simp add: status headers body emit_def booted_def)
  have "process_line ?E ?s2 (invoke_a @ [CHR 0x0A]) =
          (case fst (execute_handler ?E ?s2 ''a'' ''GET'' ''/hi'' ''{}'' ''{}'' []) of
              None \<Rightarrow> Never_returns
            | Some rc \<Rightarrow>
                if JS_ToCString ?E (JS_GetPropertyStr msg_a ''id'') = None then Returns ()
                else Undefined_behaviour,
            snd (execute_handler ?E ?s2 ''a'' ''GET'' ''/hi'' ''{}'' ''{}'' []))"
    by (rule process_line_payload [where msg = msg_a]) (simp_all add: args)
  with run have line: \<open>process_line ?E ?s2 (invoke_a @ [CHR 0x0A]) =
     (Undefined_behaviour,
      ?s1\<lparr>stdout := [send_ready ''worker-1'',
                       send_response ''a'' 200 (Some ''{"content-type":"text/plain"}'')
                         (standard_base64 (observe g1))]\<rparr>)\<close>
    by simp
  have \<open>serve ?E fopen ''/bundle.js'' ''worker-1'' [invoke_a @ [CHR 0x0A]] (booted\<lparr>ctx := ?g0\<rparr>) =
           (Undefined_behaviour,
            [send_ready ''worker-1'',
             send_response ''a'' 200 (Some ''{"content-type":"text/plain"}'') (standard_base64 (observe g1))],
            [])\<close>
    by (simp add: serve_def load line Let_def)
  with start env wid show ?thesis
    by (simp add: main_def demo_engine_def)
qed




end
